theory Spec2Isabelle
  imports Complex_Main "HOL-Library.Signed_Division"
begin

section \<open>Conventions of the embedding\<close>

text \<open>
  The development embeds the server core of the monitoring platform: the query planner,
  the rollup tick, agent registration, metric ingestion and the property store, all of
  \<^verbatim>\<open>internal/service/agent_service.go\<close> and
  \<^verbatim>\<open>internal/service/property_service.go\<close>.

  \<^item> Go's \<^verbatim>\<open>int\<close> and \<^verbatim>\<open>int64\<close> are modelled by \<^typ>\<open>int\<close>:
    every quantity is a millisecond timestamp, a number of seconds or a row count, far
    from the bounds of 64 bits, so no wrap-around is written out.
  \<^item> Go's integer division truncates towards zero; it is \<open>sdiv\<close>.
  \<^item> \<^verbatim>\<open>float64\<close> values are modelled by \<^typ>\<open>real\<close>. The only float arithmetic
    the development depends on is \<^verbatim>\<open>math.Ceil(float64(end-start)/1000/float64(maxPoints))\<close>,
    taken as the exact ceiling of the exact quotient.
  \<^item> \<^verbatim>\<open>time.Time\<close> is a number of nanoseconds since the epoch and
    \<^verbatim>\<open>time.Duration\<close> a number of nanoseconds; \<^verbatim>\<open>UnixMilli\<close> rounds down.
  \<^item> An \<^verbatim>\<open>error\<close> result is a value: \<open>Inl\<close> of a sum, or \<open>Some\<close> of an
    \<^verbatim>\<open>error option\<close> for functions that return only an error.
\<close>

datatype error =
    ErrInvalidApiKey
  | ErrEmptyAgentID
  | ErrRecordNotFound
  | ErrDuplicateKey
  | ErrDatabase
  | ErrJSON
  | ErrWrapped error

type_synonym Time = int
type_synonym Duration = int

definition Second :: Duration where
  "Second = 1000000000"

definition Hour :: Duration where
  "Hour = 3600 * Second"

definition Add :: "Time \<Rightarrow> Duration \<Rightarrow> Time" where
  "Add t d = t + d"

definition UnixMilli :: "Time \<Rightarrow> int" where
  "UnixMilli t = t div 1000000"

section \<open>Query planner\<close>

definition defaultMetricsRetentionHours :: int where
  "defaultMetricsRetentionHours = 24 * 7"

definition defaultMaxQueryPoints :: int where
  "defaultMaxQueryPoints = 720"

definition allowedIntervals :: "int list" where
  "allowedIntervals = [1, 2, 5, 10, 15, 30, 60, 120, 300, 600, 900, 1800, 3600, 7200, 14400]"

text \<open>
  Modelled from the spec: the struct \<^verbatim>\<open>models.MetricsConfig\<close>, whose declaration
  is not part of the sources at hand, with the two fields the service reads: the
  retention (``default retention is 7 \<open>\<times>\<close> 24 hours; configurable through the property
  store'') and the point budget \<open>maxQueryPoints\<close>.
\<close>

record MetricsConfig =
  RetentionHours :: int
  MaxQueryPoints :: int

text \<open>
  \<^verbatim>\<open>getMetricsConfig\<close>: the argument is what the property service returns
  (\<^verbatim>\<open>GetMetricsConfig\<close>, not part of the sources at hand), \<open>None\<close> when the
  service has no property service at all.
\<close>

definition getMetricsConfig :: "MetricsConfig option \<Rightarrow> MetricsConfig" where
  "getMetricsConfig propertyService =
     (let cfg = \<lparr>RetentionHours = defaultMetricsRetentionHours,
                 MaxQueryPoints = defaultMaxQueryPoints\<rparr>
      in case propertyService of
           None \<Rightarrow> cfg
         | Some loaded \<Rightarrow>
             (let cfg1 = (if RetentionHours loaded > 0
                          then cfg\<lparr>RetentionHours := RetentionHours loaded\<rparr> else cfg)
              in if MaxQueryPoints loaded > 0
                 then cfg1\<lparr>MaxQueryPoints := MaxQueryPoints loaded\<rparr> else cfg1))"

definition normalizeTimeRange :: "MetricsConfig option \<Rightarrow> Time \<Rightarrow> int \<Rightarrow> int \<Rightarrow> int \<times> int" where
  "normalizeTimeRange ps now start end =
     (let cfg = getMetricsConfig ps;
          retentionDuration = RetentionHours cfg * Hour;
          retentionBoundary = UnixMilli (Add now (- retentionDuration));
          start1 = (if start < retentionBoundary then retentionBoundary else start);
          end1 = (if end \<le> start1 then start1 + 1000 else end)
      in (start1, end1))"

definition calculateBaseInterval :: "int \<Rightarrow> int \<Rightarrow> int" where
  "calculateBaseInterval start end =
     (let duration = (end - start) sdiv 1000
      in if duration \<le> 60 then 2
         else if duration \<le> 5 * 60 then 5
         else if duration \<le> 15 * 60 then 15
         else if duration \<le> 30 * 60 then 30
         else if duration \<le> 60 * 60 then 60
         else if duration \<le> 3 * 60 * 60 then 180
         else if duration \<le> 6 * 60 * 60 then 300
         else if duration \<le> 12 * 60 * 60 then 600
         else if duration \<le> 24 * 60 * 60 then 900
         else if duration \<le> 3 * 24 * 60 * 60 then 1800
         else if duration \<le> 7 * 24 * 60 * 60 then 3600
         else if duration \<le> 14 * 24 * 60 * 60 then 7200
         else 14400)"

text \<open>The loop of \<^verbatim>\<open>alignInterval\<close>: the first candidate not below the interval.\<close>

fun alignLoop :: "int list \<Rightarrow> int \<Rightarrow> int option" where
  "alignLoop [] interval = None"
| "alignLoop (candidate # rest) interval =
     (if interval \<le> candidate then Some candidate else alignLoop rest interval)"

definition alignInterval :: "int \<Rightarrow> int" where
  "alignInterval interval =
     (case alignLoop allowedIntervals interval of
        Some candidate \<Rightarrow> candidate
      | None \<Rightarrow> last allowedIntervals)"

definition maxInt :: "int \<Rightarrow> int \<Rightarrow> int" where
  "maxInt a b = (if a > b then a else b)"

text \<open>
  The local \<^verbatim>\<open>required\<close> of \<^verbatim>\<open>adjustIntervalForMaxPoints\<close>:
  \<^verbatim>\<open>int(math.Ceil(durationSeconds / float64(maxPoints)))\<close> with
  \<^verbatim>\<open>durationSeconds = float64(end-start) / 1000\<close>.
\<close>

definition required :: "int \<Rightarrow> int \<Rightarrow> int \<Rightarrow> int" where
  "required start end maxPoints =
     \<lceil>(real_of_int (end - start) / 1000) / real_of_int maxPoints\<rceil>"

definition adjustIntervalForMaxPoints :: "int \<Rightarrow> int \<Rightarrow> int \<Rightarrow> int \<Rightarrow> int" where
  "adjustIntervalForMaxPoints start end interval maxPoints =
     (let interval1 = (if interval \<le> 0 then 1 else interval)
      in if maxPoints \<le> 0 then alignInterval interval1
         else if real_of_int (end - start) / 1000 \<le> 0 then alignInterval interval1
         else alignInterval (maxInt interval1 (required start end maxPoints)))"

definition DetermineInterval :: "MetricsConfig option \<Rightarrow> int \<Rightarrow> int \<Rightarrow> int \<Rightarrow> int" where
  "DetermineInterval ps start end requested =
     (let cfg = getMetricsConfig ps;
          interval = (if requested \<le> 0 then calculateBaseInterval start end else requested)
      in adjustIntervalForMaxPoints start end interval (MaxQueryPoints cfg))"

text \<open>
  \<^verbatim>\<open>GetMetrics\<close>. The metric repository is not part of the sources at hand; it is a
  parameter. \<open>GetMetricsAgg repo ''cpu''\<close> stands for \<^verbatim>\<open>GetCPUMetricsAgg\<close>,
  \<open>GetMetricsRaw repo ''cpu''\<close> for \<^verbatim>\<open>GetCPUMetrics\<close>, and so on for the eight
  kinds of the \<^verbatim>\<open>switch\<close>, whose branches differ in nothing else. Every call to
  the repository is recorded in the order it is made.
\<close>

record ('a, 'r) MetricRepo =
  GetMetricsAgg :: "string \<Rightarrow> string \<Rightarrow> int \<Rightarrow> int \<Rightarrow> int \<Rightarrow> error + 'a list"
  GetMetricsRaw :: "string \<Rightarrow> string \<Rightarrow> int \<Rightarrow> int \<Rightarrow> int \<Rightarrow> error + 'r list"

datatype query =
    AggQuery string string int int int
  | RawQuery string string int int int

datatype ('a, 'r) metrics =
    AggMetrics "'a list"
  | RawMetrics "'r list"
  | NilMetrics

definition aggCapable :: "string \<Rightarrow> bool" where
  "aggCapable metricType =
     (metricType \<in> set [''cpu'', ''memory'', ''disk'', ''network'', ''network_connection'',
                           ''disk_io'', ''gpu'', ''temperature''])"

text \<open>The case labels of the \<^verbatim>\<open>switch metricType\<close> of \<^verbatim>\<open>GetMetrics\<close>.\<close>

definition switchKinds :: "string list" where
  "switchKinds = [''cpu'', ''memory'', ''disk'', ''network'', ''network_connection'',
                  ''disk_io'', ''gpu'', ''temperature'']"

definition rawResult :: "('a, 'r) MetricRepo \<Rightarrow> string \<Rightarrow> string \<Rightarrow> int \<Rightarrow> int \<Rightarrow> int
    \<Rightarrow> error + ('a, 'r) metrics" where
  "rawResult repo metricType agentID start end interval =
     (case GetMetricsRaw repo metricType agentID start end interval of
        Inl err \<Rightarrow> Inl err
      | Inr rows \<Rightarrow> Inr (RawMetrics rows))"

definition GetMetrics :: "('a, 'r) MetricRepo \<Rightarrow> MetricsConfig option \<Rightarrow> Time \<Rightarrow> string \<Rightarrow> string
    \<Rightarrow> int \<Rightarrow> int \<Rightarrow> int \<Rightarrow> query list \<times> (error + ('a, 'r) metrics)" where
  "GetMetrics repo ps now agentID metricType start0 end0 interval0 =
     (let (start, end) = normalizeTimeRange ps now start0 end0;
          interval = DetermineInterval ps start end interval0;
          (bucketSeconds, useAgg) =
            (if aggCapable metricType then
               (if interval \<ge> 3600 then (3600, True)
                else if interval \<ge> 300 then (300, True)
                else if interval \<ge> 60 then (60, True)
                else (0, False))
             else (0, False))
      in if metricType \<in> set switchKinds then
           (if useAgg then
              (case GetMetricsAgg repo metricType agentID start end bucketSeconds of
                 Inr metrics \<Rightarrow>
                   if length metrics > 0
                   then ([AggQuery metricType agentID start end bucketSeconds],
                         Inr (AggMetrics metrics))
                   else ([AggQuery metricType agentID start end bucketSeconds,
                          RawQuery metricType agentID start end interval],
                         rawResult repo metricType agentID start end interval)
               | Inl err \<Rightarrow>
                   ([AggQuery metricType agentID start end bucketSeconds,
                     RawQuery metricType agentID start end interval],
                    rawResult repo metricType agentID start end interval))
            else ([RawQuery metricType agentID start end interval],
                  rawResult repo metricType agentID start end interval))
         else ([], Inr NilMetrics))"


section \<open>Rollup tick\<close>

text \<open>
  Modelled from the spec: the progress row, whose declaration is not part of the sources
  at hand: ``keyed \<open>(metricKind, bucketSeconds)\<close> to \<open>lastBucket\<close> (the most recent
  \<open>bucketStart\<close> already rolled up)''.
\<close>

record AggregationProgress =
  MetricType :: string
  BucketSeconds :: int
  LastBucket :: int

text \<open>
  The state a tick works on: the progress table, keyed by metric kind and bucket width,
  the data the aggregate function writes to, and the error log.
\<close>

record 'd AggState =
  aggProgress :: "(string \<times> int) \<rightharpoonup> int"
  aggData :: 'd
  aggLog :: "string list"

text \<open>
  What a tick reads from outside: the clock, once in \<^verbatim>\<open>getAggregationStart\<close> and
  once in \<^verbatim>\<open>aggregateMetric\<close>, and whether the two accesses to the progress table
  fail.
\<close>

record TickEnv =
  nowStart :: Time
  nowEnd :: Time
  loadFails :: bool
  upsertFails :: bool

text \<open>
  Modelled from the spec: the progress accessors of the metric repository, which is not
  part of the sources at hand. \<^verbatim>\<open>GetAggregationProgress\<close> loads the row of a key
  (``load \<open>lastBucket\<close> from progress''): a database failure is an error, a missing row
  is \<^verbatim>\<open>nil\<close>. \<^verbatim>\<open>UpsertAggregationProgress\<close> stores \<open>lastBucket\<close> under a
  key (``advance progress to \<open>endBucket\<close>''), or fails and stores nothing.
\<close>

definition GetAggregationProgress :: "bool \<Rightarrow> ((string \<times> int) \<rightharpoonup> int) \<Rightarrow> string \<Rightarrow> int
    \<Rightarrow> error + AggregationProgress option" where
  "GetAggregationProgress fails tbl metricType bucketSeconds =
     (if fails then Inl ErrDatabase
      else case tbl (metricType, bucketSeconds) of
             None \<Rightarrow> Inr None
           | Some lb \<Rightarrow> Inr (Some \<lparr>MetricType = metricType, BucketSeconds = bucketSeconds,
                                    LastBucket = lb\<rparr>))"

definition UpsertAggregationProgress :: "bool \<Rightarrow> ((string \<times> int) \<rightharpoonup> int) \<Rightarrow> string \<Rightarrow> int \<Rightarrow> int
    \<Rightarrow> error option \<times> ((string \<times> int) \<rightharpoonup> int)" where
  "UpsertAggregationProgress fails tbl metricType bucketSeconds lastBucket =
     (if fails then (Some ErrDatabase, tbl)
      else (None, tbl((metricType, bucketSeconds) \<mapsto> lastBucket)))"

definition getAggregationStart :: "TickEnv \<Rightarrow> ((string \<times> int) \<rightharpoonup> int) \<Rightarrow> string \<Rightarrow> int
    \<Rightarrow> Duration \<Rightarrow> int \<Rightarrow> int" where
  "getAggregationStart env tbl metricType bucketSeconds retention bucketMs =
     (let fromRetention =
            (let start = UnixMilli (Add (nowStart env) (- retention))
             in (start sdiv bucketMs) * bucketMs)
      in case GetAggregationProgress (loadFails env) tbl metricType bucketSeconds of
           Inr (Some progress) \<Rightarrow>
             if LastBucket progress > 0 then LastBucket progress + bucketMs else fromRetention
         | Inr None \<Rightarrow> fromRetention
         | Inl err \<Rightarrow> fromRetention)"

text \<open>
  \<^verbatim>\<open>aggregateMetric\<close>. The aggregate function \<open>fn\<close> is the parameter it is in the
  source; it receives the bucket width and the window, and returns its error and the
  data as it has left it.
\<close>

definition aggregateMetric :: "TickEnv \<Rightarrow> (int \<Rightarrow> int \<Rightarrow> int \<Rightarrow> 'd \<Rightarrow> error option \<times> 'd)
    \<Rightarrow> 'd AggState \<Rightarrow> string \<Rightarrow> int \<Rightarrow> Duration \<Rightarrow> 'd AggState" where
  "aggregateMetric env fn st metricType bucketSeconds retention =
     (let bucketMs = bucketSeconds * 1000;
          start = getAggregationStart env (aggProgress st) metricType bucketSeconds retention bucketMs;
          endBucket = (UnixMilli (Add (nowEnd env) (- (bucketSeconds * Second))) sdiv bucketMs)
                        * bucketMs
      in if endBucket \<le> start then st
         else
           (let end = endBucket + bucketMs - 1
            in case fn bucketSeconds start end (aggData st) of
                 (Some err, d) \<Rightarrow>
                   st\<lparr>aggData := d, aggLog := aggLog st @ [''aggregate metric failed'']\<rparr>
               | (None, d) \<Rightarrow>
                   (case UpsertAggregationProgress (upsertFails env) (aggProgress st)
                           metricType bucketSeconds endBucket of
                      (Some err, tbl) \<Rightarrow>
                        st\<lparr>aggProgress := tbl, aggData := d,
                           aggLog := aggLog st @ [''update aggregation progress failed'']\<rparr>
                    | (None, tbl) \<Rightarrow> st\<lparr>aggProgress := tbl, aggData := d\<rparr>)))"

section \<open>Agent registration\<close>

text \<open>
  Modelled from the spec: the register message \<^verbatim>\<open>protocol.AgentInfo\<close> and the row
  \<^verbatim>\<open>models.Agent\<close>, whose declarations are not part of the sources at hand, with the
  fields \<^verbatim>\<open>RegisterAgent\<close> reads and writes:
  ``\<open>register{agentID, name, hostname, os, arch, version}\<close>'' and the agent's identity,
  display name, hostname, last observed address, OS, arch, version, status and
  \<open>lastSeenAt\<close>, with \<open>createdAt\<close> and \<open>updatedAt\<close>. The fields of the message carry
  the prefix \<open>info\<close>, since the two structs share their names.
\<close>

record AgentInfo =
  info_ID :: string
  info_Name :: string
  info_Hostname :: string
  info_OS :: string
  info_Arch :: string
  info_Version :: string

record Agent =
  ID :: string
  Name :: string
  Hostname :: string
  IP :: string
  OS :: string
  Arch :: string
  Version :: string
  Status :: int
  LastSeenAt :: int
  CreatedAt :: int
  UpdatedAt :: int

text \<open>
  What a registration reads from outside: the clock (in milliseconds), the verdict of
  \<^verbatim>\<open>ValidateApiKey\<close>, and whether each access to the agent table fails.
\<close>

record RegisterEnv =
  nowMilli :: int
  apiKeyError :: "error option"
  findFails :: bool
  updateFails :: bool
  createFails :: bool

text \<open>
  Modelled from the spec: the agent repository, which is not part of the sources at
  hand. The agent table is a list of rows with \<open>ID\<close> as its primary key:
  \<^verbatim>\<open>FindById\<close> returns the row of that key, \<^verbatim>\<open>UpdateById\<close> writes the given
  row over the row of its key, \<^verbatim>\<open>Create\<close> inserts a row and refuses a key that is
  already there.
\<close>

definition FindById :: "bool \<Rightarrow> Agent list \<Rightarrow> string \<Rightarrow> error + Agent" where
  "FindById fails tbl agentID =
     (if fails then Inl ErrDatabase
      else case find (\<lambda>a. ID a = agentID) tbl of
             None \<Rightarrow> Inl ErrRecordNotFound
           | Some a \<Rightarrow> Inr a)"

definition UpdateById :: "bool \<Rightarrow> Agent list \<Rightarrow> Agent \<Rightarrow> error option \<times> Agent list" where
  "UpdateById fails tbl agent =
     (if fails then (Some ErrDatabase, tbl)
      else (None, map (\<lambda>row. if ID row = ID agent then agent else row) tbl))"

definition Create :: "bool \<Rightarrow> Agent list \<Rightarrow> Agent \<Rightarrow> error option \<times> Agent list" where
  "Create fails tbl agent =
     (if fails then (Some ErrDatabase, tbl)
      else if ID agent \<in> set (map ID tbl) then (Some ErrDuplicateKey, tbl)
      else (None, tbl @ [agent]))"

definition RegisterAgent :: "RegisterEnv \<Rightarrow> Agent list \<Rightarrow> string \<Rightarrow> AgentInfo
    \<Rightarrow> Agent list \<times> (error + Agent)" where
  "RegisterAgent env tbl ip info =
     (case apiKeyError env of
        Some err \<Rightarrow> (tbl, Inl err)
      | None \<Rightarrow>
          if info_ID info = [] then (tbl, Inl ErrEmptyAgentID)
          else
            (case FindById (findFails env) tbl (info_ID info) of
               Inr existingAgent \<Rightarrow>
                 (let now = nowMilli env;
                      existingAgent1 = existingAgent
                        \<lparr>Hostname := info_Hostname info,
                         IP := ip,
                         OS := info_OS info,
                         Arch := info_Arch info,
                         Version := info_Version info,
                         Status := 1,
                         LastSeenAt := now,
                         UpdatedAt := now\<rparr>
                  in case UpdateById (updateFails env) tbl existingAgent1 of
                       (Some err, tbl1) \<Rightarrow> (tbl1, Inl err)
                     | (None, tbl1) \<Rightarrow> (tbl1, Inr existingAgent1))
             | Inl notFound \<Rightarrow>
                 (let now = nowMilli env;
                      agent = \<lparr>ID = info_ID info,
                               Name = info_Name info,
                               Hostname = info_Hostname info,
                               IP = ip,
                               OS = info_OS info,
                               Arch = info_Arch info,
                               Version = info_Version info,
                               Status = 1,
                               LastSeenAt = now,
                               CreatedAt = now,
                               UpdatedAt = now\<rparr>
                  in case Create (createFails env) tbl agent of
                       (Some err, tbl1) \<Rightarrow> (tbl1, Inl err)
                     | (None, tbl1) \<Rightarrow> (tbl1, Inr agent))))"

section \<open>Metric ingestion\<close>

text \<open>
  Modelled from the spec: the payloads of package \<^verbatim>\<open>protocol\<close> and the rows of
  package \<^verbatim>\<open>models\<close> (``typed rows: CPU, memory, disk, network, network-connection
  totals, disk I/O, host snapshot, GPU, temperature, synthetic-monitor result''), with
  the fields \<^verbatim>\<open>HandleMetricData\<close> reads and writes. Their declarations are not
  part of the sources at hand: percentages, rates and temperatures are taken as
  \<^typ>\<open>real\<close>, counters and sizes as \<^typ>\<open>int\<close>; \<^verbatim>\<open>HandleMetricData\<close> only copies
  them. Field names carry the name of their struct, since several structs share a name.
\<close>

record CPUData =
  CPUData_UsagePercent :: real
  CPUData_LogicalCores :: int
  CPUData_PhysicalCores :: int
  CPUData_ModelName :: string

record CPUMetric =
  CPUMetric_AgentID :: string
  CPUMetric_UsagePercent :: real
  CPUMetric_LogicalCores :: int
  CPUMetric_PhysicalCores :: int
  CPUMetric_ModelName :: string
  CPUMetric_Timestamp :: int

record MemoryData =
  MemoryData_Total :: int
  MemoryData_Used :: int
  MemoryData_Free :: int
  MemoryData_UsagePercent :: real
  MemoryData_SwapTotal :: int
  MemoryData_SwapUsed :: int
  MemoryData_SwapFree :: int

record MemoryMetric =
  MemoryMetric_AgentID :: string
  MemoryMetric_Total :: int
  MemoryMetric_Used :: int
  MemoryMetric_Free :: int
  MemoryMetric_UsagePercent :: real
  MemoryMetric_SwapTotal :: int
  MemoryMetric_SwapUsed :: int
  MemoryMetric_SwapFree :: int
  MemoryMetric_Timestamp :: int

record DiskData =
  DiskData_MountPoint :: string
  DiskData_Total :: int
  DiskData_Used :: int
  DiskData_Free :: int
  DiskData_UsagePercent :: real

record DiskMetric =
  DiskMetric_AgentID :: string
  DiskMetric_MountPoint :: string
  DiskMetric_Total :: int
  DiskMetric_Used :: int
  DiskMetric_Free :: int
  DiskMetric_UsagePercent :: real
  DiskMetric_Timestamp :: int

record NetworkData =
  NetworkData_Interface :: string
  NetworkData_BytesSentRate :: real
  NetworkData_BytesRecvRate :: real
  NetworkData_BytesSentTotal :: int
  NetworkData_BytesRecvTotal :: int

record NetworkMetric =
  NetworkMetric_AgentID :: string
  NetworkMetric_Interface :: string
  NetworkMetric_BytesSentRate :: real
  NetworkMetric_BytesRecvRate :: real
  NetworkMetric_BytesSentTotal :: int
  NetworkMetric_BytesRecvTotal :: int
  NetworkMetric_Timestamp :: int

record NetworkConnectionData =
  NetworkConnectionData_Established :: int
  NetworkConnectionData_SynSent :: int
  NetworkConnectionData_SynRecv :: int
  NetworkConnectionData_FinWait1 :: int
  NetworkConnectionData_FinWait2 :: int
  NetworkConnectionData_TimeWait :: int
  NetworkConnectionData_Close :: int
  NetworkConnectionData_CloseWait :: int
  NetworkConnectionData_LastAck :: int
  NetworkConnectionData_Listen :: int
  NetworkConnectionData_Closing :: int
  NetworkConnectionData_Total :: int

record NetworkConnectionMetric =
  NetworkConnectionMetric_AgentID :: string
  NetworkConnectionMetric_Established :: int
  NetworkConnectionMetric_SynSent :: int
  NetworkConnectionMetric_SynRecv :: int
  NetworkConnectionMetric_FinWait1 :: int
  NetworkConnectionMetric_FinWait2 :: int
  NetworkConnectionMetric_TimeWait :: int
  NetworkConnectionMetric_Close :: int
  NetworkConnectionMetric_CloseWait :: int
  NetworkConnectionMetric_LastAck :: int
  NetworkConnectionMetric_Listen :: int
  NetworkConnectionMetric_Closing :: int
  NetworkConnectionMetric_Total :: int
  NetworkConnectionMetric_Timestamp :: int

record DiskIOData =
  DiskIOData_Device :: string
  DiskIOData_ReadCount :: int
  DiskIOData_WriteCount :: int
  DiskIOData_ReadBytes :: int
  DiskIOData_WriteBytes :: int
  DiskIOData_ReadBytesRate :: real
  DiskIOData_WriteBytesRate :: real
  DiskIOData_ReadTime :: int
  DiskIOData_WriteTime :: int
  DiskIOData_IoTime :: int
  DiskIOData_IopsInProgress :: int

record DiskIOMetric =
  DiskIOMetric_AgentID :: string
  DiskIOMetric_Device :: string
  DiskIOMetric_ReadCount :: int
  DiskIOMetric_WriteCount :: int
  DiskIOMetric_ReadBytes :: int
  DiskIOMetric_WriteBytes :: int
  DiskIOMetric_ReadBytesRate :: real
  DiskIOMetric_WriteBytesRate :: real
  DiskIOMetric_ReadTime :: int
  DiskIOMetric_WriteTime :: int
  DiskIOMetric_IoTime :: int
  DiskIOMetric_IopsInProgress :: int
  DiskIOMetric_Timestamp :: int

record HostInfoData =
  HostInfoData_OS :: string
  HostInfoData_Platform :: string
  HostInfoData_PlatformVersion :: string
  HostInfoData_KernelVersion :: string
  HostInfoData_KernelArch :: string
  HostInfoData_Uptime :: int
  HostInfoData_BootTime :: int
  HostInfoData_Procs :: int

record HostMetric =
  HostMetric_AgentID :: string
  HostMetric_OS :: string
  HostMetric_Platform :: string
  HostMetric_PlatformVersion :: string
  HostMetric_KernelVersion :: string
  HostMetric_KernelArch :: string
  HostMetric_Uptime :: int
  HostMetric_BootTime :: int
  HostMetric_Procs :: int
  HostMetric_Timestamp :: int

record GPUData =
  GPUData_Index :: int
  GPUData_Name :: string
  GPUData_Utilization :: real
  GPUData_MemoryTotal :: int
  GPUData_MemoryUsed :: int
  GPUData_MemoryFree :: int
  GPUData_Temperature :: real
  GPUData_PowerUsage :: real
  GPUData_FanSpeed :: real

record GPUMetric =
  GPUMetric_AgentID :: string
  GPUMetric_Index :: int
  GPUMetric_Name :: string
  GPUMetric_Utilization :: real
  GPUMetric_MemoryTotal :: int
  GPUMetric_MemoryUsed :: int
  GPUMetric_MemoryFree :: int
  GPUMetric_Temperature :: real
  GPUMetric_PowerDraw :: real
  GPUMetric_FanSpeed :: real
  GPUMetric_PerformanceState :: string
  GPUMetric_Timestamp :: int

record TemperatureData =
  TemperatureData_SensorKey :: string
  TemperatureData_Temperature :: real

record TemperatureMetric =
  TemperatureMetric_AgentID :: string
  TemperatureMetric_SensorKey :: string
  TemperatureMetric_SensorLabel :: string
  TemperatureMetric_Temperature :: real
  TemperatureMetric_Timestamp :: int

record MonitorData =
  MonitorData_ID :: string
  MonitorData_Type :: string
  MonitorData_Target :: string
  MonitorData_Status :: string
  MonitorData_StatusCode :: int
  MonitorData_ResponseTime :: int
  MonitorData_Error :: string
  MonitorData_Message :: string
  MonitorData_ContentMatch :: bool
  MonitorData_CertExpiryTime :: int
  MonitorData_CertDaysLeft :: int
  MonitorData_CheckedAt :: int

record MonitorMetric =
  MonitorMetric_AgentId :: string
  MonitorMetric_MonitorId :: string
  MonitorMetric_Type :: string
  MonitorMetric_Target :: string
  MonitorMetric_Status :: string
  MonitorMetric_StatusCode :: int
  MonitorMetric_ResponseTime :: int
  MonitorMetric_Error :: string
  MonitorMetric_Message :: string
  MonitorMetric_ContentMatch :: bool
  MonitorMetric_CertExpiryTime :: int
  MonitorMetric_CertDaysLeft :: int
  MonitorMetric_Timestamp :: int

text \<open>A row of one of the ten raw tables.\<close>

datatype MetricRow =
    CPURow CPUMetric
  | MemoryRow MemoryMetric
  | DiskRow DiskMetric
  | NetworkRow NetworkMetric
  | NetworkConnectionRow NetworkConnectionMetric
  | DiskIORow DiskIOMetric
  | HostRow HostMetric
  | GPURow GPUMetric
  | TemperatureRow TemperatureMetric
  | MonitorRow MonitorMetric

fun rowTimestamp :: "MetricRow \<Rightarrow> int" where
  "rowTimestamp (CPURow m) = CPUMetric_Timestamp m"
| "rowTimestamp (MemoryRow m) = MemoryMetric_Timestamp m"
| "rowTimestamp (DiskRow m) = DiskMetric_Timestamp m"
| "rowTimestamp (NetworkRow m) = NetworkMetric_Timestamp m"
| "rowTimestamp (NetworkConnectionRow m) = NetworkConnectionMetric_Timestamp m"
| "rowTimestamp (DiskIORow m) = DiskIOMetric_Timestamp m"
| "rowTimestamp (HostRow m) = HostMetric_Timestamp m"
| "rowTimestamp (GPURow m) = GPUMetric_Timestamp m"
| "rowTimestamp (TemperatureRow m) = TemperatureMetric_Timestamp m"
| "rowTimestamp (MonitorRow m) = MonitorMetric_Timestamp m"

text \<open>
  \<^verbatim>\<open>json.Unmarshal\<close> at each of the ten target types is a parameter. The elements
  of a disk I/O frame are pointers (\<^verbatim>\<open>[]*protocol.DiskIOData\<close>): a JSON
  \<^verbatim>\<open>null\<close> element decodes to \<^verbatim>\<open>nil\<close>, here \<open>None\<close>. The elements of the
  other array frames are values.
\<close>

record 'raw Unmarshal =
  unmarshalCPU :: "'raw \<Rightarrow> error + CPUData"
  unmarshalMemory :: "'raw \<Rightarrow> error + MemoryData"
  unmarshalDisk :: "'raw \<Rightarrow> error + DiskData list"
  unmarshalNetwork :: "'raw \<Rightarrow> error + NetworkData list"
  unmarshalNetworkConnection :: "'raw \<Rightarrow> error + NetworkConnectionData"
  unmarshalDiskIO :: "'raw \<Rightarrow> error + DiskIOData option list"
  unmarshalHost :: "'raw \<Rightarrow> error + HostInfoData"
  unmarshalGPU :: "'raw \<Rightarrow> error + GPUData list"
  unmarshalTemperature :: "'raw \<Rightarrow> error + TemperatureData list"
  unmarshalMonitor :: "'raw \<Rightarrow> error + MonitorData list"

text \<open>
  Modelled from the spec: the values of the \<^verbatim>\<open>protocol.MetricType\<close> constants,
  whose declarations are not part of the sources at hand; they are the kind names of
  \<^verbatim>\<open>GetMetrics\<close> and of the spec's sample kinds.
\<close>

definition MetricTypeCPU :: string where "MetricTypeCPU = ''cpu''"
definition MetricTypeMemory :: string where "MetricTypeMemory = ''memory''"
definition MetricTypeDisk :: string where "MetricTypeDisk = ''disk''"
definition MetricTypeNetwork :: string where "MetricTypeNetwork = ''network''"
definition MetricTypeNetworkConnection :: string where
  "MetricTypeNetworkConnection = ''network_connection''"
definition MetricTypeDiskIO :: string where "MetricTypeDiskIO = ''disk_io''"
definition MetricTypeHost :: string where "MetricTypeHost = ''host''"
definition MetricTypeGPU :: string where "MetricTypeGPU = ''gpu''"
definition MetricTypeTemperature :: string where "MetricTypeTemperature = ''temperature''"
definition MetricTypeMonitor :: string where "MetricTypeMonitor = ''monitor''"

text \<open>
  Modelled from the spec: the \<^verbatim>\<open>Save...Metric\<close> functions of the metric
  repository, which is not part of the sources at hand (``write raw rows''). The state
  is the raw tables, in insertion order, and the log. A save call appends its row; the
  \<open>n\<close>-th save call within one frame fails when \<open>saveFails n\<close>, and a failed call
  inserts nothing.
\<close>

record MetricStore =
  metricRows :: "MetricRow list"
  metricLog :: "string list"

datatype outcome =
    Returned "error option"
  | PanicNilPointer

definition saveMetric :: "(nat \<Rightarrow> bool) \<Rightarrow> nat \<Rightarrow> MetricRow \<Rightarrow> MetricStore
    \<Rightarrow> error option \<times> MetricStore" where
  "saveMetric saveFails n row st =
     (if saveFails n then (Some ErrDatabase, st)
      else (None, st\<lparr>metricRows := metricRows st @ [row]\<rparr>))"

definition mkCPUMetric :: "string \<Rightarrow> int \<Rightarrow> CPUData \<Rightarrow> CPUMetric" where
  "mkCPUMetric agentID now cpuData =
     \<lparr>CPUMetric_AgentID = agentID,
      CPUMetric_UsagePercent = CPUData_UsagePercent cpuData,
      CPUMetric_LogicalCores = CPUData_LogicalCores cpuData,
      CPUMetric_PhysicalCores = CPUData_PhysicalCores cpuData,
      CPUMetric_ModelName = CPUData_ModelName cpuData,
      CPUMetric_Timestamp = now\<rparr>"

definition mkMemoryMetric :: "string \<Rightarrow> int \<Rightarrow> MemoryData \<Rightarrow> MemoryMetric" where
  "mkMemoryMetric agentID now memData =
     \<lparr>MemoryMetric_AgentID = agentID,
      MemoryMetric_Total = MemoryData_Total memData,
      MemoryMetric_Used = MemoryData_Used memData,
      MemoryMetric_Free = MemoryData_Free memData,
      MemoryMetric_UsagePercent = MemoryData_UsagePercent memData,
      MemoryMetric_SwapTotal = MemoryData_SwapTotal memData,
      MemoryMetric_SwapUsed = MemoryData_SwapUsed memData,
      MemoryMetric_SwapFree = MemoryData_SwapFree memData,
      MemoryMetric_Timestamp = now\<rparr>"

definition mkDiskMetric :: "string \<Rightarrow> int \<Rightarrow> DiskData \<Rightarrow> DiskMetric" where
  "mkDiskMetric agentID now diskData =
     \<lparr>DiskMetric_AgentID = agentID,
      DiskMetric_MountPoint = DiskData_MountPoint diskData,
      DiskMetric_Total = DiskData_Total diskData,
      DiskMetric_Used = DiskData_Used diskData,
      DiskMetric_Free = DiskData_Free diskData,
      DiskMetric_UsagePercent = DiskData_UsagePercent diskData,
      DiskMetric_Timestamp = now\<rparr>"

definition mkNetworkMetric :: "string \<Rightarrow> int \<Rightarrow> NetworkData \<Rightarrow> NetworkMetric" where
  "mkNetworkMetric agentID now netData =
     \<lparr>NetworkMetric_AgentID = agentID,
      NetworkMetric_Interface = NetworkData_Interface netData,
      NetworkMetric_BytesSentRate = NetworkData_BytesSentRate netData,
      NetworkMetric_BytesRecvRate = NetworkData_BytesRecvRate netData,
      NetworkMetric_BytesSentTotal = NetworkData_BytesSentTotal netData,
      NetworkMetric_BytesRecvTotal = NetworkData_BytesRecvTotal netData,
      NetworkMetric_Timestamp = now\<rparr>"

definition mkNetworkConnectionMetric :: "string \<Rightarrow> int \<Rightarrow> NetworkConnectionData
    \<Rightarrow> NetworkConnectionMetric" where
  "mkNetworkConnectionMetric agentID now connData =
     \<lparr>NetworkConnectionMetric_AgentID = agentID,
      NetworkConnectionMetric_Established = NetworkConnectionData_Established connData,
      NetworkConnectionMetric_SynSent = NetworkConnectionData_SynSent connData,
      NetworkConnectionMetric_SynRecv = NetworkConnectionData_SynRecv connData,
      NetworkConnectionMetric_FinWait1 = NetworkConnectionData_FinWait1 connData,
      NetworkConnectionMetric_FinWait2 = NetworkConnectionData_FinWait2 connData,
      NetworkConnectionMetric_TimeWait = NetworkConnectionData_TimeWait connData,
      NetworkConnectionMetric_Close = NetworkConnectionData_Close connData,
      NetworkConnectionMetric_CloseWait = NetworkConnectionData_CloseWait connData,
      NetworkConnectionMetric_LastAck = NetworkConnectionData_LastAck connData,
      NetworkConnectionMetric_Listen = NetworkConnectionData_Listen connData,
      NetworkConnectionMetric_Closing = NetworkConnectionData_Closing connData,
      NetworkConnectionMetric_Total = NetworkConnectionData_Total connData,
      NetworkConnectionMetric_Timestamp = now\<rparr>"

definition mkDiskIOMetric :: "string \<Rightarrow> int \<Rightarrow> DiskIOData \<Rightarrow> DiskIOMetric" where
  "mkDiskIOMetric agentID now diskIOData =
     \<lparr>DiskIOMetric_AgentID = agentID,
      DiskIOMetric_Device = DiskIOData_Device diskIOData,
      DiskIOMetric_ReadCount = DiskIOData_ReadCount diskIOData,
      DiskIOMetric_WriteCount = DiskIOData_WriteCount diskIOData,
      DiskIOMetric_ReadBytes = DiskIOData_ReadBytes diskIOData,
      DiskIOMetric_WriteBytes = DiskIOData_WriteBytes diskIOData,
      DiskIOMetric_ReadBytesRate = DiskIOData_ReadBytesRate diskIOData,
      DiskIOMetric_WriteBytesRate = DiskIOData_WriteBytesRate diskIOData,
      DiskIOMetric_ReadTime = DiskIOData_ReadTime diskIOData,
      DiskIOMetric_WriteTime = DiskIOData_WriteTime diskIOData,
      DiskIOMetric_IoTime = DiskIOData_IoTime diskIOData,
      DiskIOMetric_IopsInProgress = DiskIOData_IopsInProgress diskIOData,
      DiskIOMetric_Timestamp = now\<rparr>"

definition mkHostMetric :: "string \<Rightarrow> int \<Rightarrow> HostInfoData \<Rightarrow> HostMetric" where
  "mkHostMetric agentID now hostData =
     \<lparr>HostMetric_AgentID = agentID,
      HostMetric_OS = HostInfoData_OS hostData,
      HostMetric_Platform = HostInfoData_Platform hostData,
      HostMetric_PlatformVersion = HostInfoData_PlatformVersion hostData,
      HostMetric_KernelVersion = HostInfoData_KernelVersion hostData,
      HostMetric_KernelArch = HostInfoData_KernelArch hostData,
      HostMetric_Uptime = HostInfoData_Uptime hostData,
      HostMetric_BootTime = HostInfoData_BootTime hostData,
      HostMetric_Procs = HostInfoData_Procs hostData,
      HostMetric_Timestamp = now\<rparr>"

definition mkGPUMetric :: "string \<Rightarrow> int \<Rightarrow> GPUData \<Rightarrow> GPUMetric" where
  "mkGPUMetric agentID now gpuData =
     \<lparr>GPUMetric_AgentID = agentID,
      GPUMetric_Index = GPUData_Index gpuData,
      GPUMetric_Name = GPUData_Name gpuData,
      GPUMetric_Utilization = GPUData_Utilization gpuData,
      GPUMetric_MemoryTotal = GPUData_MemoryTotal gpuData,
      GPUMetric_MemoryUsed = GPUData_MemoryUsed gpuData,
      GPUMetric_MemoryFree = GPUData_MemoryFree gpuData,
      GPUMetric_Temperature = GPUData_Temperature gpuData,
      GPUMetric_PowerDraw = GPUData_PowerUsage gpuData,
      GPUMetric_FanSpeed = GPUData_FanSpeed gpuData,
      GPUMetric_PerformanceState = [],
      GPUMetric_Timestamp = now\<rparr>"

definition mkTemperatureMetric :: "string \<Rightarrow> int \<Rightarrow> TemperatureData \<Rightarrow> TemperatureMetric" where
  "mkTemperatureMetric agentID now tempData =
     \<lparr>TemperatureMetric_AgentID = agentID,
      TemperatureMetric_SensorKey = TemperatureData_SensorKey tempData,
      TemperatureMetric_SensorLabel = TemperatureData_SensorKey tempData,
      TemperatureMetric_Temperature = TemperatureData_Temperature tempData,
      TemperatureMetric_Timestamp = now\<rparr>"

definition mkMonitorMetric :: "string \<Rightarrow> MonitorData \<Rightarrow> MonitorMetric" where
  "mkMonitorMetric agentID monitorData =
     \<lparr>MonitorMetric_AgentId = agentID,
      MonitorMetric_MonitorId = MonitorData_ID monitorData,
      MonitorMetric_Type = MonitorData_Type monitorData,
      MonitorMetric_Target = MonitorData_Target monitorData,
      MonitorMetric_Status = MonitorData_Status monitorData,
      MonitorMetric_StatusCode = MonitorData_StatusCode monitorData,
      MonitorMetric_ResponseTime = MonitorData_ResponseTime monitorData,
      MonitorMetric_Error = MonitorData_Error monitorData,
      MonitorMetric_Message = MonitorData_Message monitorData,
      MonitorMetric_ContentMatch = MonitorData_ContentMatch monitorData,
      MonitorMetric_CertExpiryTime = MonitorData_CertExpiryTime monitorData,
      MonitorMetric_CertDaysLeft = MonitorData_CertDaysLeft monitorData,
      MonitorMetric_Timestamp = MonitorData_CheckedAt monitorData\<rparr>"

text \<open>
  The \<^verbatim>\<open>for ... range\<close> loops of the array kinds: build the row of each element,
  save it, and on an error log the message and go on. \<open>n\<close> counts the calls of the save
  function.
\<close>

fun saveEach :: "(nat \<Rightarrow> bool) \<Rightarrow> string \<Rightarrow> ('e \<Rightarrow> MetricRow) \<Rightarrow> nat \<Rightarrow> 'e list
    \<Rightarrow> MetricStore \<Rightarrow> MetricStore" where
  "saveEach saveFails msg mk n [] st = st"
| "saveEach saveFails msg mk n (x # xs) st =
     (case saveMetric saveFails n (mk x) st of
        (Some err, st1) \<Rightarrow>
          saveEach saveFails msg mk (Suc n) xs (st1\<lparr>metricLog := metricLog st1 @ [msg]\<rparr>)
      | (None, st1) \<Rightarrow> saveEach saveFails msg mk (Suc n) xs st1)"

text \<open>
  The loop of the disk I/O kind ranges over pointers and reads the fields of each without
  a \<^verbatim>\<open>nil\<close> check: at a \<^verbatim>\<open>nil\<close> element it panics, with the rows of the
  elements before it already saved.
\<close>

fun saveEachDiskIO :: "(nat \<Rightarrow> bool) \<Rightarrow> string \<Rightarrow> string \<Rightarrow> int \<Rightarrow> nat \<Rightarrow> DiskIOData option list
    \<Rightarrow> MetricStore \<Rightarrow> MetricStore \<times> outcome" where
  "saveEachDiskIO saveFails msg agentID now n [] st = (st, Returned None)"
| "saveEachDiskIO saveFails msg agentID now n (None # xs) st = (st, PanicNilPointer)"
| "saveEachDiskIO saveFails msg agentID now n (Some diskIOData # xs) st =
     (case saveMetric saveFails n (DiskIORow (mkDiskIOMetric agentID now diskIOData)) st of
        (Some err, st1) \<Rightarrow>
          saveEachDiskIO saveFails msg agentID now (Suc n) xs
            (st1\<lparr>metricLog := metricLog st1 @ [msg]\<rparr>)
      | (None, st1) \<Rightarrow> saveEachDiskIO saveFails msg agentID now (Suc n) xs st1)"

text \<open>The scalar kinds save one row and return what the save function returns.\<close>

definition saveOne :: "(nat \<Rightarrow> bool) \<Rightarrow> MetricRow \<Rightarrow> MetricStore \<Rightarrow> MetricStore \<times> outcome" where
  "saveOne saveFails row st =
     (case saveMetric saveFails 0 row st of (err, st1) \<Rightarrow> (st1, Returned err))"

text \<open>\<^verbatim>\<open>HandleMetricData\<close>; \<open>now\<close> is \<^verbatim>\<open>time.Now().UnixMilli()\<close>.\<close>

definition HandleMetricData :: "int \<Rightarrow> 'raw Unmarshal \<Rightarrow> (nat \<Rightarrow> bool) \<Rightarrow> MetricStore \<Rightarrow> string
    \<Rightarrow> string \<Rightarrow> 'raw \<Rightarrow> MetricStore \<times> outcome" where
  "HandleMetricData now json saveFails st agentID metricType data =
     (if metricType = MetricTypeCPU then
        (case unmarshalCPU json data of
           Inl err \<Rightarrow> (st, Returned (Some err))
         | Inr cpuData \<Rightarrow> saveOne saveFails (CPURow (mkCPUMetric agentID now cpuData)) st)
      else if metricType = MetricTypeMemory then
        (case unmarshalMemory json data of
           Inl err \<Rightarrow> (st, Returned (Some err))
         | Inr memData \<Rightarrow> saveOne saveFails (MemoryRow (mkMemoryMetric agentID now memData)) st)
      else if metricType = MetricTypeDisk then
        (case unmarshalDisk json data of
           Inl err \<Rightarrow> (st, Returned (Some err))
         | Inr diskDataList \<Rightarrow>
             (saveEach saveFails ''failed to save disk metric''
                (\<lambda>diskData. DiskRow (mkDiskMetric agentID now diskData)) 0 diskDataList st,
              Returned None))
      else if metricType = MetricTypeNetwork then
        (case unmarshalNetwork json data of
           Inl err \<Rightarrow> (st, Returned (Some err))
         | Inr networkDataList \<Rightarrow>
             (saveEach saveFails ''failed to save network metric''
                (\<lambda>netData. NetworkRow (mkNetworkMetric agentID now netData)) 0 networkDataList st,
              Returned None))
      else if metricType = MetricTypeNetworkConnection then
        (case unmarshalNetworkConnection json data of
           Inl err \<Rightarrow> (st, Returned (Some err))
         | Inr connData \<Rightarrow>
             saveOne saveFails
               (NetworkConnectionRow (mkNetworkConnectionMetric agentID now connData)) st)
      else if metricType = MetricTypeDiskIO then
        (case unmarshalDiskIO json data of
           Inl err \<Rightarrow> (st, Returned (Some err))
         | Inr diskIODataList \<Rightarrow>
             saveEachDiskIO saveFails ''failed to save disk io metric'' agentID now 0
               diskIODataList st)
      else if metricType = MetricTypeHost then
        (case unmarshalHost json data of
           Inl err \<Rightarrow> (st, Returned (Some err))
         | Inr hostData \<Rightarrow> saveOne saveFails (HostRow (mkHostMetric agentID now hostData)) st)
      else if metricType = MetricTypeGPU then
        (case unmarshalGPU json data of
           Inl err \<Rightarrow> (st, Returned (Some err))
         | Inr gpuDataList \<Rightarrow>
             (saveEach saveFails ''failed to save gpu metric''
                (\<lambda>gpuData. GPURow (mkGPUMetric agentID now gpuData)) 0 gpuDataList st,
              Returned None))
      else if metricType = MetricTypeTemperature then
        (case unmarshalTemperature json data of
           Inl err \<Rightarrow> (st, Returned (Some err))
         | Inr tempDataList \<Rightarrow>
             (saveEach saveFails ''failed to save temperature metric''
                (\<lambda>tempData. TemperatureRow (mkTemperatureMetric agentID now tempData)) 0
                tempDataList st,
              Returned None))
      else if metricType = MetricTypeMonitor then
        (case unmarshalMonitor json data of
           Inl err \<Rightarrow> (st, Returned (Some err))
         | Inr monitorDataList \<Rightarrow>
             (saveEach saveFails ''failed to save monitor metric''
                (\<lambda>monitorData. MonitorRow (mkMonitorMetric agentID monitorData)) 0
                monitorDataList st,
              Returned None))
      else (st\<lparr>metricLog := metricLog st @ [''unknown metric type'']\<rparr>, Returned None))"

text \<open>Every row of a list carries the timestamp \<open>now\<close>.\<close>

definition stampedNow :: "int \<Rightarrow> MetricRow list \<Rightarrow> bool" where
  "stampedNow now new = (\<forall>row \<in> set new. rowTimestamp row = now)"

text \<open>
  For an array frame with elements \<open>xs\<close>: the rows of the elements whose save call does
  not fail, in the order of the frame, and the number of save calls that fail.
\<close>

definition savedRows :: "(nat \<Rightarrow> bool) \<Rightarrow> ('e \<Rightarrow> MetricRow) \<Rightarrow> 'e list \<Rightarrow> MetricRow list" where
  "savedRows saveFails mk xs =
     map (mk \<circ> snd) (filter (\<lambda>(i, x). \<not> saveFails i) (enumerate 0 xs))"

definition failedSaves :: "(nat \<Rightarrow> bool) \<Rightarrow> 'e list \<Rightarrow> nat" where
  "failedSaves saveFails xs = length (filter (\<lambda>(i, x). saveFails i) (enumerate 0 xs))"

section \<open>Property store\<close>

record Property =
  Property_ID :: string
  Property_Name :: string
  Property_Value :: string
  Property_CreatedAt :: int
  Property_UpdatedAt :: int

definition PropertyIDPublicIPConfig :: string where
  "PropertyIDPublicIPConfig = ''public_ip_config''"

definition defaultPublicIPv4APIs :: "string list" where
  "defaultPublicIPv4APIs =
     [''https://myip.ipip.net'',
      ''https://ddns.oray.com/checkip'',
      ''https://ip.3322.net'',
      ''https://4.ipw.cn'',
      ''https://v4.yinghualuo.cn/bejson'']"

definition defaultPublicIPv6APIs :: "string list" where
  "defaultPublicIPv6APIs =
     [''https://speed.neu6.edu.cn/getIP.php'',
      ''https://v6.ident.me'',
      ''https://6.ipw.cn'',
      ''https://v6.yinghualuo.cn/bejson'']"

record PublicIPConfig =
  Enabled :: bool
  IntervalSeconds :: int
  IPv4Scope :: string
  IPv4AgentIDs :: "string list"
  IPv6Scope :: string
  IPv6AgentIDs :: "string list"
  IPv4Enabled :: bool
  IPv6Enabled :: bool
  IPv4APIs :: "string list"
  IPv6APIs :: "string list"

text \<open>
  The state of the property service: the \<^verbatim>\<open>properties\<close> table, keyed by the
  property id, and the in-process cache, each entry with the time it expires at.
\<close>

record PropertyStore =
  propTable :: "string \<rightharpoonup> Property"
  propCache :: "string \<rightharpoonup> Property \<times> Time"

text \<open>
  What a call reads from outside: the clock and whether the access to the table fails.
\<close>

record PropertyEnv =
  propNow :: Time
  propFindFails :: bool
  propSaveFails :: bool

text \<open>
  Modelled from the spec: the cache (an external library) and the property repository
  (not part of the sources at hand). The cache is ``an in-process cache with per-entry
  expiry and on-demand invalidation'': an entry is returned until it expires or is
  deleted. The repository reads the row of a key and saves a row under its key,
  replacing the row that was there.
\<close>

definition cacheGet :: "(string \<rightharpoonup> Property \<times> Time) \<Rightarrow> Time \<Rightarrow> string \<Rightarrow> Property option" where
  "cacheGet c now k =
     (case c k of
        None \<Rightarrow> None
      | Some (v, expiresAt) \<Rightarrow> if now < expiresAt then Some v else None)"

definition cacheSet :: "(string \<rightharpoonup> Property \<times> Time) \<Rightarrow> Time \<Rightarrow> string \<Rightarrow> Property \<Rightarrow> Duration
    \<Rightarrow> (string \<rightharpoonup> Property \<times> Time)" where
  "cacheSet c now k v ttl = c(k \<mapsto> (v, now + ttl))"

definition cacheDelete :: "(string \<rightharpoonup> Property \<times> Time) \<Rightarrow> string \<Rightarrow> (string \<rightharpoonup> Property \<times> Time)" where
  "cacheDelete c k = c(k := None)"

definition PropertyRepo_FindById :: "bool \<Rightarrow> (string \<rightharpoonup> Property) \<Rightarrow> string \<Rightarrow> error + Property" where
  "PropertyRepo_FindById fails tbl k =
     (if fails then Inl ErrDatabase
      else case tbl k of None \<Rightarrow> Inl ErrRecordNotFound | Some property \<Rightarrow> Inr property)"

definition PropertyRepo_Save :: "bool \<Rightarrow> (string \<rightharpoonup> Property) \<Rightarrow> Property
    \<Rightarrow> error option \<times> (string \<rightharpoonup> Property)" where
  "PropertyRepo_Save fails tbl property =
     (if fails then (Some ErrDatabase, tbl)
      else (None, tbl(Property_ID property \<mapsto> property)))"

definition Get :: "PropertyEnv \<Rightarrow> PropertyStore \<Rightarrow> string \<Rightarrow> PropertyStore \<times> (error + Property)" where
  "Get env st k =
     (case cacheGet (propCache st) (propNow env) k of
        Some property \<Rightarrow> (st, Inr property)
      | None \<Rightarrow>
          (case PropertyRepo_FindById (propFindFails env) (propTable st) k of
             Inl err \<Rightarrow> (st, Inl err)
           | Inr property \<Rightarrow>
               (st\<lparr>propCache := cacheSet (propCache st) (propNow env) k property Hour\<rparr>,
                Inr property)))"

text \<open>
  \<^verbatim>\<open>GetValue\<close>; \<open>unmarshal\<close> is \<^verbatim>\<open>json.Unmarshal\<close> at the type of the target,
  which it receives with the contents it has before the call.
\<close>

definition GetValue :: "PropertyEnv \<Rightarrow> (string \<Rightarrow> 't \<Rightarrow> error + 't) \<Rightarrow> PropertyStore \<Rightarrow> string \<Rightarrow> 't
    \<Rightarrow> PropertyStore \<times> (error + 't)" where
  "GetValue env unmarshal st k target =
     (case Get env st k of
        (st1, Inl err) \<Rightarrow> (st1, Inl err)
      | (st1, Inr property) \<Rightarrow>
          if Property_Value property = [] then (st1, Inr target)
          else (st1, unmarshal (Property_Value property) target))"

text \<open>\<^verbatim>\<open>Set\<close>; \<open>marshal\<close> is \<^verbatim>\<open>json.Marshal\<close> at the type of the value.\<close>

definition Set :: "PropertyEnv \<Rightarrow> ('v \<Rightarrow> error + string) \<Rightarrow> PropertyStore \<Rightarrow> string \<Rightarrow> string \<Rightarrow> 'v
    \<Rightarrow> PropertyStore \<times> error option" where
  "Set env marshal st k name v =
     (case marshal v of
        Inl err \<Rightarrow> (st, Some err)
      | Inr jsonValue \<Rightarrow>
          (let property = \<lparr>Property_ID = k,
                           Property_Name = name,
                           Property_Value = jsonValue,
                           Property_CreatedAt = UnixMilli (propNow env),
                           Property_UpdatedAt = UnixMilli (propNow env)\<rparr>
           in case PropertyRepo_Save (propSaveFails env) (propTable st) property of
                (Some err, tbl) \<Rightarrow> (st\<lparr>propTable := tbl\<rparr>, Some err)
              | (None, tbl) \<Rightarrow>
                  (st\<lparr>propTable := tbl, propCache := cacheDelete (propCache st) k\<rparr>, None)))"

definition applyPublicIPConfigDefaults :: "PublicIPConfig \<Rightarrow> PublicIPConfig" where
  "applyPublicIPConfigDefaults config =
     (let c1 = (if IntervalSeconds config \<le> 0 then config\<lparr>IntervalSeconds := 300\<rparr> else config);
          c2 = (if IPv4Scope c1 = [] then c1\<lparr>IPv4Scope := ''all''\<rparr> else c1);
          c3 = (if IPv6Scope c2 = [] then c2\<lparr>IPv6Scope := ''all''\<rparr> else c2);
          c4 = (if IPv4Scope c3 \<noteq> ''all'' \<and> IPv4Scope c3 \<noteq> ''custom''
                then c3\<lparr>IPv4Scope := ''all''\<rparr> else c3);
          c5 = (if IPv6Scope c4 \<noteq> ''all'' \<and> IPv6Scope c4 \<noteq> ''custom''
                then c4\<lparr>IPv6Scope := ''all''\<rparr> else c4);
          c6 = (if length (IPv4APIs c5) = 0
                then c5\<lparr>IPv4APIs := [] @ defaultPublicIPv4APIs\<rparr> else c5);
          c7 = (if length (IPv6APIs c6) = 0
                then c6\<lparr>IPv6APIs := [] @ defaultPublicIPv6APIs\<rparr> else c6)
      in c7)"

text \<open>The zero value of \<^verbatim>\<open>models.PublicIPConfig\<close>, as \<^verbatim>\<open>var config\<close> declares it.\<close>

definition zeroPublicIPConfig :: PublicIPConfig where
  "zeroPublicIPConfig =
     \<lparr>Enabled = False, IntervalSeconds = 0, IPv4Scope = [], IPv4AgentIDs = [],
      IPv6Scope = [], IPv6AgentIDs = [], IPv4Enabled = False, IPv6Enabled = False,
      IPv4APIs = [], IPv6APIs = []\<rparr>"

definition GetPublicIPConfig :: "PropertyEnv \<Rightarrow> (string \<Rightarrow> PublicIPConfig \<Rightarrow> error + PublicIPConfig)
    \<Rightarrow> PropertyStore \<Rightarrow> PropertyStore \<times> (error + PublicIPConfig)" where
  "GetPublicIPConfig env unmarshal st =
     (let config = zeroPublicIPConfig
      in case GetValue env unmarshal st PropertyIDPublicIPConfig config of
           (st1, Inl err) \<Rightarrow> (st1, Inl (ErrWrapped err))
         | (st1, Inr config1) \<Rightarrow> (st1, Inr (applyPublicIPConfigDefaults config1)))"

section \<open>Properties of the query planner\<close>

lemma alignInterval_unfold:
  "alignInterval x =
     (if x \<le> 1 then 1 else if x \<le> 2 then 2 else if x \<le> 5 then 5 else if x \<le> 10 then 10
      else if x \<le> 15 then 15 else if x \<le> 30 then 30 else if x \<le> 60 then 60
      else if x \<le> 120 then 120 else if x \<le> 300 then 300 else if x \<le> 600 then 600
      else if x \<le> 900 then 900 else if x \<le> 1800 then 1800 else if x \<le> 3600 then 3600
      else if x \<le> 7200 then 7200 else 14400)"
  by (simp add: alignInterval_def allowedIntervals_def)







lemma getMetricsConfig_default: "getMetricsConfig None = \<lparr>RetentionHours = 168, MaxQueryPoints = 720\<rparr>"
  by (simp add: getMetricsConfig_def defaultMaxQueryPoints_def defaultMetricsRetentionHours_def)




text \<open>The float expression of \<open>required\<close> in integer arithmetic, for evaluation.\<close>

lemma required_eq_div:
  assumes "0 < m"
  shows "required start end m = - ((start - end) div (1000 * m))"
proof -
  have "(real_of_int (end - start) / 1000) / real_of_int m
          = real_of_int (end - start) / real_of_int (1000 * m)"
    by simp
  then have "required start end m = \<lceil>real_of_int (end - start) / real_of_int (1000 * m)\<rceil>"
    by (simp only: required_def)
  also have "\<dots> = - ((- (end - start)) div (1000 * m))"
    by (simp only: ceiling_divide_eq_div)
  finally show ?thesis by simp
qed



lemma switchKinds_aggCapable: "metricType \<in> set switchKinds \<Longrightarrow> aggCapable metricType"
  by (simp add: switchKinds_def aggCapable_def)

lemma GetMetrics_unfold:
  assumes "metricType \<in> set switchKinds"
    and "normalizeTimeRange ps now start0 end0 = (start, end)"
    and "interval = DetermineInterval ps start end interval0"
    and "bucket = (if 3600 \<le> interval then 3600 else if 300 \<le> interval then 300 else 60)"
  shows "GetMetrics repo ps now agentID metricType start0 end0 interval0 =
     (if 60 \<le> interval then
        (case GetMetricsAgg repo metricType agentID start end bucket of
           Inr metrics \<Rightarrow>
             if metrics \<noteq> []
             then ([AggQuery metricType agentID start end bucket], Inr (AggMetrics metrics))
             else ([AggQuery metricType agentID start end bucket,
                    RawQuery metricType agentID start end interval],
                   rawResult repo metricType agentID start end interval)
         | Inl err \<Rightarrow>
             ([AggQuery metricType agentID start end bucket,
               RawQuery metricType agentID start end interval],
              rawResult repo metricType agentID start end interval))
      else ([RawQuery metricType agentID start end interval],
            rawResult repo metricType agentID start end interval))"
  using assms switchKinds_aggCapable [OF assms(1)]
  by (simp add: GetMetrics_def Let_def split: sum.splits)

text \<open>
  Claim C4. For each of the eight kinds \<^verbatim>\<open>GetMetrics\<close> serves, the first read is
  decided by the effective interval: the 3600-second aggregate bucket from 3600 on, the
  300-second bucket from 300 on, the 60-second bucket from 60 on, and the raw rows
  below 60. When the aggregate read returns no rows, the raw rows of the same range and
  interval are read next and are the result; when it returns rows, they are the result.
\<close>

theorem GetMetrics_routes:
  assumes "metricType \<in> set switchKinds"
    and "normalizeTimeRange ps now start0 end0 = (start, end)"
    and "interval = DetermineInterval ps start end interval0"
    and "GetMetrics repo ps now agentID metricType start0 end0 interval0 = (queries, result)"
  shows "(3600 \<le> interval \<longrightarrow>
            (\<exists>rest. queries = AggQuery metricType agentID start end 3600 # rest))
       \<and> (300 \<le> interval \<and> interval < 3600 \<longrightarrow>
            (\<exists>rest. queries = AggQuery metricType agentID start end 300 # rest))
       \<and> (60 \<le> interval \<and> interval < 300 \<longrightarrow>
            (\<exists>rest. queries = AggQuery metricType agentID start end 60 # rest))
       \<and> (interval < 60 \<longrightarrow>
            queries = [RawQuery metricType agentID start end interval]
          \<and> result = rawResult repo metricType agentID start end interval)
       \<and> (\<forall>bucket rest.
            queries = AggQuery metricType agentID start end bucket # rest
          \<and> GetMetricsAgg repo metricType agentID start end bucket = Inr [] \<longrightarrow>
            rest = [RawQuery metricType agentID start end interval]
          \<and> result = rawResult repo metricType agentID start end interval)
       \<and> (\<forall>bucket rest rows.
            queries = AggQuery metricType agentID start end bucket # rest
          \<and> GetMetricsAgg repo metricType agentID start end bucket = Inr rows \<and> rows \<noteq> [] \<longrightarrow>
            rest = [] \<and> result = Inr (AggMetrics rows))"
proof -
  define bucket0 :: int
    where "bucket0 = (if 3600 \<le> interval then 3600 else if 300 \<le> interval then 300 else 60)"
  note u = GetMetrics_unfold [OF assms(1,2,3) bucket0_def, of repo agentID]
  show ?thesis
  proof (cases "60 \<le> interval")
    case False
    then show ?thesis using u assms(4) by auto
  next
    case True
    show ?thesis
    proof (cases "GetMetricsAgg repo metricType agentID start end bucket0")
      case (Inl err)
      then show ?thesis using u assms(4) True by (auto simp: bucket0_def split: if_splits)
    next
      case (Inr metrics)
      then show ?thesis using u assms(4) True by (auto simp: bucket0_def split: if_splits)
    qed
  qed
qed

text \<open>
  The theorem at a query for the last seven days of CPU samples with the default
  configuration, on a repository whose aggregate tables are empty: the effective
  interval is 3600, the 3600-second bucket is read first, and the raw rows are read
  next and returned.
\<close>

theorem GetMetrics_routes_witness:
  "''cpu'' \<in> set switchKinds
   \<and> normalizeTimeRange None 1700000000000000000 1699395200000 1700000000000
       = (1699395200000, 1700000000000)
   \<and> DetermineInterval None 1699395200000 1700000000000 0 = 3600
   \<and> GetMetrics \<lparr>GetMetricsAgg = (\<lambda>k a s e b. Inr ([]::nat list)),
                  GetMetricsRaw = (\<lambda>k a s e i. Inr [1::nat, 2])\<rparr>
        None 1700000000000000000 ''a1'' ''cpu'' 1699395200000 1700000000000 0
       = ([AggQuery ''cpu'' ''a1'' 1699395200000 1700000000000 3600,
           RawQuery ''cpu'' ''a1'' 1699395200000 1700000000000 3600],
          Inr (RawMetrics [1, 2]))"
proof -
  let ?repo = "\<lparr>GetMetricsAgg = (\<lambda>k a s e b. Inr ([]::nat list)),
                GetMetricsRaw = (\<lambda>k a s e i. Inr [1::nat, 2])\<rparr>"
  obtain queries result where g:
    "GetMetrics ?repo None 1700000000000000000 ''a1'' ''cpu'' 1699395200000 1700000000000 0
       = (queries, result)"
    by (cases "GetMetrics ?repo None 1700000000000000000 ''a1'' ''cpu'' 1699395200000
                 1700000000000 0") blast
  have k: "''cpu'' \<in> set switchKinds" by (simp add: switchKinds_def)
  have n: "normalizeTimeRange None 1700000000000000000 1699395200000 1700000000000
             = (1699395200000, 1700000000000)"
    by (simp add: normalizeTimeRange_def getMetricsConfig_default UnixMilli_def Add_def
        Hour_def Second_def)
  have r: "required 1699395200000 1700000000000 720 = 840"
    by (simp add: required_eq_div)
  have d: "DetermineInterval None 1699395200000 1700000000000 0 = 3600"
    by (simp add: DetermineInterval_def getMetricsConfig_default calculateBaseInterval_def
        signed_divide_int_def adjustIntervalForMaxPoints_def r maxInt_def alignInterval_unfold)
  note t = GetMetrics_routes [OF k n d [symmetric] g]
  from t obtain rest where q: "queries = AggQuery ''cpu'' ''a1'' 1699395200000 1700000000000 3600 # rest"
    by auto
  have e: "GetMetricsAgg ?repo ''cpu'' ''a1'' 1699395200000 1700000000000 3600 = Inr []"
    by simp
  from t q e have "rest = [RawQuery ''cpu'' ''a1'' 1699395200000 1700000000000 3600]
      \<and> result = rawResult ?repo ''cpu'' ''a1'' 1699395200000 1700000000000 3600"
    by blast
  then show ?thesis using k n d g q by (simp add: rawResult_def)
qed


section \<open>Properties of the rollup tick\<close>

lemma sdiv_nonneg: "0 \<le> a \<Longrightarrow> 0 < b \<Longrightarrow> a sdiv b = a div (b::int)"
  by (simp add: signed_divide_int_def sgn_if)

lemma div_minus_mult:
  fixes t k c :: int
  assumes "c \<noteq> 0"
  shows "(t - k * c) div c = t div c - k"
  using div_mult_self1 [OF assms, of t "- k"] by simp

lemma UnixMilli_minus_seconds: "UnixMilli (Add t (- (n * Second))) = UnixMilli t - n * 1000"
proof -
  have "t + - (n * 1000000000) = t - (n * 1000) * 1000000" by simp
  moreover have "(t - (n * 1000) * 1000000) div 1000000 = t div 1000000 - n * 1000"
    by (rule div_minus_mult) simp
  ultimately have "(t + - (n * 1000000000)) div 1000000 = t div 1000000 - n * 1000"
    by (simp only:)
  then show ?thesis by (simp add: UnixMilli_def Add_def Second_def)
qed

lemma aligned_le_floor:
  fixes lb x w :: int
  assumes "0 < w" and "lb mod w = 0" and "lb \<le> x"
  shows "lb \<le> (x div w) * w"
proof -
  have "lb div w \<le> x div w" using assms(1,3) by (simp add: zdiv_mono1)
  then have "(lb div w) * w \<le> (x div w) * w" using assms(1) by (simp add: mult_right_mono)
  moreover have "(lb div w) * w = lb" using assms(2) by (simp add: mod_0_imp_dvd)
  ultimately show ?thesis by simp
qed

lemma floor_mult_le:
  fixes x w :: int
  assumes "0 < w"
  shows "(x div w) * w \<le> x"
proof -
  have "0 \<le> x mod w" using assms by simp
  moreover have "(x div w) * w + x mod w = x" by simp
  ultimately show ?thesis by linarith
qed

lemma getAggregationStart_loaded:
  assumes "\<not> loadFails env" and "tbl (metricType, bucketSeconds) = Some lb" and "0 < lb"
  shows "getAggregationStart env tbl metricType bucketSeconds retention bucketMs = lb + bucketMs"
  using assms by (simp add: getAggregationStart_def GetAggregationProgress_def)

lemma getAggregationStart_fallback:
  assumes "loadFails env \<or> tbl (metricType, bucketSeconds) = None
           \<or> (\<exists>lb. tbl (metricType, bucketSeconds) = Some lb \<and> lb \<le> 0)"
  shows "getAggregationStart env tbl metricType bucketSeconds retention bucketMs =
         (UnixMilli (Add (nowStart env) (- retention)) sdiv bucketMs) * bucketMs"
  using assms by (auto simp: getAggregationStart_def GetAggregationProgress_def Let_def)

text \<open>The outcomes of one tick, in terms of the window it computes.\<close>

lemma aggregateMetric_cases:
  assumes "aggregateMetric env fn st metricType bucketSeconds retention = st'"
    and "start = getAggregationStart env (aggProgress st) metricType bucketSeconds retention
                   (bucketSeconds * 1000)"
    and "endBucket = (UnixMilli (Add (nowEnd env) (- (bucketSeconds * Second)))
                        sdiv (bucketSeconds * 1000)) * (bucketSeconds * 1000)"
    and "r = fn bucketSeconds start (endBucket + bucketSeconds * 1000 - 1) (aggData st)"
  shows "(endBucket \<le> start \<and> st' = st)
       \<or> (start < endBucket \<and> aggData st' = snd r
          \<and> ((fst r = None \<and> \<not> upsertFails env
               \<and> aggProgress st' = (aggProgress st)((metricType, bucketSeconds) \<mapsto> endBucket))
             \<or> ((fst r \<noteq> None \<or> upsertFails env) \<and> aggProgress st' = aggProgress st)))"
proof (cases "endBucket \<le> start")
  case True
  then show ?thesis using assms by (simp add: aggregateMetric_def Let_def)
next
  case False
  obtain err d where r: "r = (err, d)" by (cases r)
  show ?thesis
  proof (cases err)
    case (Some e)
    then show ?thesis using False assms r
      by (auto simp: aggregateMetric_def Let_def split: prod.splits option.splits)
  next
    case None
    then show ?thesis using False assms r
      by (cases "upsertFails env")
        (auto simp: aggregateMetric_def Let_def UpsertAggregationProgress_def
          split: prod.splits option.splits)
  qed
qed

text \<open>
  Claim C2. For a bucket width of 60, 300 or 3600 seconds and clock readings for which
  neither the retention boundary nor the grace-period instant lies before the epoch, one
  tick computes: \<open>start\<close>, the loaded \<open>lastBucket\<close> plus the bucket width in milliseconds
  when progress exists (the load succeeds with a positive \<open>lastBucket\<close>), and otherwise
  the retention boundary aligned down to the bucket width; \<open>endBucket\<close>, the instant one
  bucket width before now, aligned down to the bucket width. The tick does nothing when
  \<open>endBucket \<le> start\<close>; otherwise the aggregate function is run on the window from
  \<open>start\<close> to \<open>endBucket + bucketMs - 1\<close>, and when it and the progress write succeed,
  progress is advanced to \<open>endBucket\<close>.
\<close>

theorem aggregateMetric_window:
  assumes "bucketSeconds \<in> {60, 300, 3600}"
    and "0 \<le> UnixMilli (Add (nowStart env) (- retention))"
    and "bucketSeconds * 1000 \<le> UnixMilli (nowEnd env)"
    and "bucketMs = bucketSeconds * 1000"
    and "start = getAggregationStart env (aggProgress st) metricType bucketSeconds retention bucketMs"
    and "endBucket = ((UnixMilli (nowEnd env) - bucketSeconds * 1000) div bucketMs) * bucketMs"
    and "aggregateMetric env fn st metricType bucketSeconds retention = st'"
  shows "(\<forall>lastBucket. \<not> loadFails env
            \<and> aggProgress st (metricType, bucketSeconds) = Some lastBucket \<and> 0 < lastBucket \<longrightarrow>
            start = lastBucket + bucketSeconds * 1000)
       \<and> (loadFails env \<or> aggProgress st (metricType, bucketSeconds) = None
            \<or> (\<exists>lastBucket. aggProgress st (metricType, bucketSeconds) = Some lastBucket
                  \<and> lastBucket \<le> 0) \<longrightarrow>
            start = (UnixMilli (Add (nowStart env) (- retention)) div bucketMs) * bucketMs)
       \<and> (endBucket \<le> start \<longrightarrow> st' = st)
       \<and> (start < endBucket \<longrightarrow>
            aggData st' = snd (fn bucketSeconds start (endBucket + bucketMs - 1) (aggData st))
          \<and> (fst (fn bucketSeconds start (endBucket + bucketMs - 1) (aggData st)) = None
               \<and> \<not> upsertFails env \<longrightarrow>
               aggProgress st' = (aggProgress st)((metricType, bucketSeconds) \<mapsto> endBucket)))"
proof -
  have pos: "0 < bucketMs" using assms(1,4) by auto
  have a: "\<forall>lastBucket. \<not> loadFails env
            \<and> aggProgress st (metricType, bucketSeconds) = Some lastBucket \<and> 0 < lastBucket \<longrightarrow>
            start = lastBucket + bucketSeconds * 1000"
    using assms(4,5) getAggregationStart_loaded by blast
  have b: "loadFails env \<or> aggProgress st (metricType, bucketSeconds) = None
            \<or> (\<exists>lastBucket. aggProgress st (metricType, bucketSeconds) = Some lastBucket
                  \<and> lastBucket \<le> 0) \<longrightarrow>
            start = (UnixMilli (Add (nowStart env) (- retention)) div bucketMs) * bucketMs"
  proof
    assume h: "loadFails env \<or> aggProgress st (metricType, bucketSeconds) = None
            \<or> (\<exists>lastBucket. aggProgress st (metricType, bucketSeconds) = Some lastBucket
                  \<and> lastBucket \<le> 0)"
    have "start = (UnixMilli (Add (nowStart env) (- retention)) sdiv bucketMs) * bucketMs"
      using assms(5) h
        getAggregationStart_fallback [of env "aggProgress st" metricType bucketSeconds retention bucketMs]
      by simp
    then show "start = (UnixMilli (Add (nowStart env) (- retention)) div bucketMs) * bucketMs"
      using sdiv_nonneg [OF assms(2) pos] by simp
  qed
  have e: "endBucket = (UnixMilli (Add (nowEnd env) (- (bucketSeconds * Second)))
                          sdiv (bucketSeconds * 1000)) * (bucketSeconds * 1000)"
  proof -
    have "0 \<le> UnixMilli (nowEnd env) - bucketSeconds * 1000" using assms(3) by simp
    then show ?thesis
      using sdiv_nonneg [of "UnixMilli (nowEnd env) - bucketSeconds * 1000" bucketMs] pos assms(4,6)
      by (simp add: UnixMilli_minus_seconds)
  qed
  note c = aggregateMetric_cases [OF assms(7) assms(5) [unfolded assms(4)] e refl]
  have d1: "endBucket \<le> start \<longrightarrow> st' = st" using c by auto
  have d2: "start < endBucket \<longrightarrow>
            aggData st' = snd (fn bucketSeconds start (endBucket + bucketMs - 1) (aggData st))
          \<and> (fst (fn bucketSeconds start (endBucket + bucketMs - 1) (aggData st)) = None
               \<and> \<not> upsertFails env \<longrightarrow>
               aggProgress st' = (aggProgress st)((metricType, bucketSeconds) \<mapsto> endBucket))"
    using c assms(4) by auto
  show ?thesis using a b d1 d2 by blast
qed

text \<open>
  The theorem at a tick for CPU and the 60-second bucket, at a clock of 1700000000000
  milliseconds with progress 1699999800000 stored: the window starts at 1699999860000,
  \<open>endBucket\<close> is 1699999920000, the aggregate function (which here appends the window
  it is given) receives the window up to 1699999979999, and progress becomes
  1699999920000.
\<close>

theorem aggregateMetric_window_witness:
  "(60::int) \<in> {60, 300, 3600}
   \<and> 0 \<le> UnixMilli (Add 1700000000000000000 (- (168 * Hour)))
   \<and> 60 * 1000 \<le> UnixMilli 1700000000000000000
   \<and> 1699999920000 = ((UnixMilli 1700000000000000000 - 60 * 1000) div (60 * 1000)) * (60 * 1000)
   \<and> aggData (aggregateMetric
        \<lparr>nowStart = 1700000000000000000, nowEnd = 1700000000000000000,
         loadFails = False, upsertFails = False\<rparr>
        (\<lambda>bucketSeconds start end d. (None, d @ [(bucketSeconds, start, end)]))
        \<lparr>aggProgress = [(''cpu'', 60) \<mapsto> 1699999800000], aggData = [], aggLog = []\<rparr>
        ''cpu'' 60 (168 * Hour))
       = [(60, 1699999860000, 1699999979999)]
   \<and> aggProgress (aggregateMetric
        \<lparr>nowStart = 1700000000000000000, nowEnd = 1700000000000000000,
         loadFails = False, upsertFails = False\<rparr>
        (\<lambda>bucketSeconds start end d. (None, d @ [(bucketSeconds, start, end)]))
        \<lparr>aggProgress = [(''cpu'', 60) \<mapsto> 1699999800000], aggData = [], aggLog = []\<rparr>
        ''cpu'' 60 (168 * Hour)) (''cpu'', 60)
       = Some 1699999920000"
proof -
  let ?env = "\<lparr>nowStart = 1700000000000000000, nowEnd = 1700000000000000000,
               loadFails = False, upsertFails = False\<rparr>"
  let ?fn = "\<lambda>(bucketSeconds::int) (start::int) (end::int) d. (None::error option, d @ [(bucketSeconds, start, end)])"
  let ?st = "\<lparr>aggProgress = [(''cpu'', 60) \<mapsto> 1699999800000], aggData = [], aggLog = []\<rparr>"
  define st' where "st' = aggregateMetric ?env ?fn ?st ''cpu'' 60 (168 * Hour)"
  have h1: "(60::int) \<in> {60, 300, 3600}" by simp
  have h2: "0 \<le> UnixMilli (Add (nowStart ?env) (- (168 * Hour)))"
    by (simp add: UnixMilli_def Add_def Hour_def Second_def)
  have h3: "60 * 1000 \<le> UnixMilli (nowEnd ?env)" by (simp add: UnixMilli_def)
  have s: "1699999860000 = getAggregationStart ?env (aggProgress ?st) ''cpu'' 60 (168 * Hour) (60 * 1000)"
    by (simp add: getAggregationStart_def GetAggregationProgress_def)
  have e: "1699999920000 = ((UnixMilli (nowEnd ?env) - 60 * 1000) div (60 * 1000)) * (60 * 1000)"
    by (simp add: UnixMilli_def)
  note t = aggregateMetric_window [OF h1 h2 h3 refl s e st'_def [symmetric]]
  from t have "aggData st' = [(60, 1699999860000, 1699999979999)]
      \<and> aggProgress st' (''cpu'', 60) = Some 1699999920000"
    by simp
  then show ?thesis using h1 h2 h3 e by (simp add: st'_def)
qed

text \<open>
  What a tick stores is the start of a closed bucket: positive, aligned to the bucket
  width and at least one bucket width behind the clock of the tick.
\<close>

lemma getAggregationStart_nonneg:
  assumes "0 < bucketMs" and "0 \<le> UnixMilli (Add (nowStart env) (- retention))"
  shows "0 \<le> getAggregationStart env tbl metricType bucketSeconds retention bucketMs"
proof -
  let ?b = "UnixMilli (Add (nowStart env) (- retention))"
  have "0 \<le> (?b sdiv bucketMs) * bucketMs"
    using assms sdiv_nonneg [OF assms(2,1)] by (simp add: pos_imp_zdiv_nonneg_iff)
  then show ?thesis
    using assms(1)
    by (auto simp: getAggregationStart_def GetAggregationProgress_def Let_def
        split: option.splits)
qed

lemma aggregateMetric_stores_closed_bucket:
  assumes "bucketSeconds \<in> {60, 300, 3600}"
    and "0 \<le> UnixMilli (Add (nowStart env) (- retention))"
    and "bucketSeconds * 1000 \<le> UnixMilli (nowEnd env)"
    and "aggregateMetric env fn st metricType bucketSeconds retention = st'"
    and "aggProgress st' \<noteq> aggProgress st"
    and "aggProgress st' (metricType, bucketSeconds) = Some nb"
  shows "0 < nb \<and> nb mod (bucketSeconds * 1000) = 0
       \<and> nb + bucketSeconds * 1000 \<le> UnixMilli (nowEnd env)"
proof -
  define start where "start = getAggregationStart env (aggProgress st) metricType bucketSeconds
                        retention (bucketSeconds * 1000)"
  define endBucket where "endBucket = (UnixMilli (Add (nowEnd env) (- (bucketSeconds * Second)))
                        sdiv (bucketSeconds * 1000)) * (bucketSeconds * 1000)"
  have pos: "0 < bucketSeconds * 1000" using assms(1) by auto
  have nn: "0 \<le> UnixMilli (nowEnd env) - bucketSeconds * 1000" using assms(3) by simp
  have e: "endBucket = ((UnixMilli (nowEnd env) - bucketSeconds * 1000) div (bucketSeconds * 1000))
                          * (bucketSeconds * 1000)"
    using sdiv_nonneg [OF nn pos] by (simp add: endBucket_def UnixMilli_minus_seconds)
  have s: "0 \<le> start" unfolding start_def using pos assms(2) by (rule getAggregationStart_nonneg)
  have "nb = endBucket \<and> start < endBucket"
    using aggregateMetric_cases [OF assms(4) start_def endBucket_def refl] assms(5,6) by auto
  moreover have "endBucket mod (bucketSeconds * 1000) = 0" by (simp add: e)
  moreover have "endBucket \<le> UnixMilli (nowEnd env) - bucketSeconds * 1000"
    unfolding e using pos by (rule floor_mult_le)
  ultimately show ?thesis using s by simp
qed

text \<open>
  Claim C3. Let \<open>lastBucket\<close> be the progress stored for a kind and a bucket width of 60,
  300 or 3600 seconds: the start of a closed bucket, that is positive and, where the
  tick cannot load it, aligned to the bucket width and at least one bucket width behind
  the clock (what every tick stores, by the lemma above). Then whenever a tick stores a
  new value, the new value is strictly greater than \<open>lastBucket\<close>; no other key changes;
  and progress changes only if the aggregate function has returned without error on
  the window of the tick, so that a failed aggregation leaves progress unchanged.
\<close>

theorem aggregateMetric_progress_monotonic:
  assumes "bucketSeconds \<in> {60, 300, 3600}"
    and "aggProgress st (metricType, bucketSeconds) = Some lastBucket"
    and "0 < lastBucket"
    and "loadFails env \<longrightarrow> lastBucket mod (bucketSeconds * 1000) = 0
           \<and> lastBucket + bucketSeconds * 1000 \<le> UnixMilli (nowEnd env)"
    and "start = getAggregationStart env (aggProgress st) metricType bucketSeconds retention
                   (bucketSeconds * 1000)"
    and "endBucket = (UnixMilli (Add (nowEnd env) (- (bucketSeconds * Second)))
                        sdiv (bucketSeconds * 1000)) * (bucketSeconds * 1000)"
    and "aggregateMetric env fn st metricType bucketSeconds retention = st'"
  shows "(\<exists>newBucket. aggProgress st' (metricType, bucketSeconds) = Some newBucket
            \<and> (newBucket \<noteq> lastBucket \<longrightarrow> lastBucket < newBucket))
       \<and> (\<forall>key. key \<noteq> (metricType, bucketSeconds) \<longrightarrow> aggProgress st' key = aggProgress st key)
       \<and> (aggProgress st' \<noteq> aggProgress st \<longrightarrow>
            fst (fn bucketSeconds start (endBucket + bucketSeconds * 1000 - 1) (aggData st)) = None)
       \<and> (fst (fn bucketSeconds start (endBucket + bucketSeconds * 1000 - 1) (aggData st)) \<noteq> None
            \<longrightarrow> aggProgress st' = aggProgress st)"
proof -
  have pos: "0 < bucketSeconds * 1000" using assms(1) by auto
  note c = aggregateMetric_cases [OF assms(7) assms(5) assms(6) refl]
  have ge: "start < endBucket \<Longrightarrow> lastBucket \<le> endBucket"
  proof (cases "loadFails env")
    case False
    assume "start < endBucket"
    moreover have "start = lastBucket + bucketSeconds * 1000"
      using assms(2,3,5) False
        getAggregationStart_loaded [of env "aggProgress st" metricType bucketSeconds lastBucket]
      by simp
    ultimately show ?thesis using pos by simp
  next
    case True
    then have al: "lastBucket mod (bucketSeconds * 1000) = 0"
      and cl: "lastBucket + bucketSeconds * 1000 \<le> UnixMilli (nowEnd env)"
      using assms(4) by simp_all
    have nn: "0 \<le> UnixMilli (nowEnd env) - bucketSeconds * 1000"
      using cl assms(3) by simp
    have e: "endBucket = ((UnixMilli (nowEnd env) - bucketSeconds * 1000) div (bucketSeconds * 1000))
                            * (bucketSeconds * 1000)"
      using sdiv_nonneg [OF nn pos] assms(6) by (simp add: UnixMilli_minus_seconds)
    have "lastBucket \<le> UnixMilli (nowEnd env) - bucketSeconds * 1000" using cl by simp
    then show ?thesis unfolding e by (rule aligned_le_floor [OF pos al])
  qed
  have a: "\<exists>newBucket. aggProgress st' (metricType, bucketSeconds) = Some newBucket
            \<and> (newBucket \<noteq> lastBucket \<longrightarrow> lastBucket < newBucket)"
    using c ge assms(2) by auto
  have b: "\<forall>key. key \<noteq> (metricType, bucketSeconds) \<longrightarrow> aggProgress st' key = aggProgress st key"
    using c by auto
  have d: "aggProgress st' \<noteq> aggProgress st \<longrightarrow>
            fst (fn bucketSeconds start (endBucket + bucketSeconds * 1000 - 1) (aggData st)) = None"
    using c by auto
  have f: "fst (fn bucketSeconds start (endBucket + bucketSeconds * 1000 - 1) (aggData st)) \<noteq> None
            \<longrightarrow> aggProgress st' = aggProgress st"
    using c by auto
  show ?thesis using a b d f by blast
qed

text \<open>
  The theorem at a tick for CPU and the 60-second bucket whose progress load fails, at a
  clock of 1700000000000 milliseconds with progress 1699999800000 stored: the window
  starts at the retention boundary, and the tick stores 1699999920000, which is greater.
\<close>

theorem aggregateMetric_progress_monotonic_witness:
  "(60::int) \<in> {60, 300, 3600}
   \<and> [(''cpu'', 60::int) \<mapsto> 1699999800000::int] (''cpu'', 60) = Some 1699999800000
   \<and> (1699999800000::int) mod (60 * 1000) = 0
   \<and> 1699999800000 + 60 * 1000 \<le> UnixMilli 1700000000000000000
   \<and> aggProgress (aggregateMetric
        \<lparr>nowStart = 1700000000000000000, nowEnd = 1700000000000000000,
         loadFails = True, upsertFails = False\<rparr>
        (\<lambda>bucketSeconds start end d. (None, d @ [(bucketSeconds, start, end)]))
        \<lparr>aggProgress = [(''cpu'', 60) \<mapsto> 1699999800000], aggData = [], aggLog = []\<rparr>
        ''cpu'' 60 (168 * Hour)) (''cpu'', 60)
       = Some 1699999920000
   \<and> (1699999800000::int) < 1699999920000"
proof -
  let ?env = "\<lparr>nowStart = 1700000000000000000, nowEnd = 1700000000000000000,
               loadFails = True, upsertFails = False\<rparr>"
  let ?fn = "\<lambda>(bucketSeconds::int) (start::int) (end::int) d. (None::error option, d @ [(bucketSeconds, start, end)])"
  let ?st = "\<lparr>aggProgress = [(''cpu'', 60) \<mapsto> 1699999800000], aggData = [], aggLog = []\<rparr>"
  define st' where "st' = aggregateMetric ?env ?fn ?st ''cpu'' 60 (168 * Hour)"
  have h1: "(60::int) \<in> {60, 300, 3600}" by simp
  have h2: "aggProgress ?st (''cpu'', 60) = Some 1699999800000" by simp
  have h3: "(0::int) < 1699999800000" by simp
  have h4: "loadFails ?env \<longrightarrow> (1699999800000::int) mod (60 * 1000) = 0
              \<and> 1699999800000 + 60 * 1000 \<le> UnixMilli (nowEnd ?env)"
    by (simp add: UnixMilli_def)
  have e: "(UnixMilli (Add (nowEnd ?env) (- (60 * Second))) sdiv (60 * 1000)) * (60 * 1000)
             = 1699999920000"
    by (simp add: UnixMilli_def Add_def Second_def signed_divide_int_def)
  have s: "getAggregationStart ?env (aggProgress ?st) ''cpu'' 60 (168 * Hour) (60 * 1000)
             = 1699395180000"
    by (simp add: getAggregationStart_def GetAggregationProgress_def UnixMilli_def Add_def
        Hour_def Second_def signed_divide_int_def)
  note t = aggregateMetric_progress_monotonic [OF h1 h2 h3 h4 refl refl st'_def [symmetric]]
  have v: "aggProgress st' (''cpu'', 60) = Some 1699999920000"
    unfolding st'_def aggregateMetric_def Let_def e s
    by (simp add: UpsertAggregationProgress_def)
  from t obtain newBucket where n: "aggProgress st' (''cpu'', 60) = Some newBucket"
    and g: "newBucket \<noteq> 1699999800000 \<longrightarrow> 1699999800000 < newBucket"
    by blast
  from n v have "newBucket = 1699999920000" by simp
  with g have "(1699999800000::int) < 1699999920000" by simp
  then show ?thesis using h1 h4 v by (simp add: st'_def)
qed

section \<open>Properties of agent registration\<close>

lemma find_Some_ID: "find (\<lambda>a. ID a = k) tbl = Some a \<Longrightarrow> ID a = k \<and> a \<in> set tbl"
  by (induction tbl) (auto split: if_splits)

lemma find_in_map_ID: "find (\<lambda>a. ID a = k) tbl = Some a \<Longrightarrow> k \<in> set (map ID tbl)"
  using find_Some_ID by fastforce

lemma map_ID_update:
  "map ID (map (\<lambda>row. if ID row = ID agent then agent else row) tbl) = map ID tbl"
  by (induction tbl) auto

lemma map_CreatedAt_update:
  assumes "\<forall>row \<in> set tbl. ID row = ID agent \<longrightarrow> CreatedAt row = CreatedAt agent"
  shows "map CreatedAt (map (\<lambda>row. if ID row = ID agent then agent else row) tbl)
           = map CreatedAt tbl"
  using assms by (induction tbl) auto

lemma distinct_ID_same_row:
  assumes "distinct (map ID tbl)" and "a \<in> set tbl" and "row \<in> set tbl" and "ID row = ID a"
  shows "row = a"
  using assms by (meson distinct_map inj_onD)

lemma distinct_filter_eq_one:
  "distinct xs \<Longrightarrow> x \<in> set xs \<Longrightarrow> length (filter (\<lambda>k. k = x) xs) = 1"
proof (induction xs)
  case Nil
  then show ?case by simp
next
  case (Cons a xs)
  show ?case
  proof (cases "a = x")
    case True
    then have "x \<notin> set xs" using Cons.prems(1) by simp
    then have "filter (\<lambda>k. k = x) xs = []" by (auto simp: filter_empty_conv)
    then show ?thesis using True by simp
  next
    case False
    then show ?thesis using Cons by simp
  qed
qed

lemma find_update:
  assumes "find (\<lambda>a. ID a = k) tbl = Some a0" and "ID agent = k"
  shows "find (\<lambda>a. ID a = k) (map (\<lambda>row. if ID row = ID agent then agent else row) tbl)
           = Some agent"
  using assms by (induction tbl) (auto split: if_splits)

text \<open>
  A registration of an agent whose row exists: it returns an error and leaves the table
  as it is, or it returns the updated row, written over the row of that key.
\<close>

lemma RegisterAgent_existing:
  assumes "find (\<lambda>a. ID a = info_ID info) tbl = Some existing"
    and "RegisterAgent env tbl ip info = (tbl1, result)"
  shows "(tbl1 = tbl \<and> (\<exists>err. result = Inl err))
       \<or> (\<exists>agent. result = Inr agent
            \<and> agent = existing\<lparr>Hostname := info_Hostname info, IP := ip, OS := info_OS info,
                                Arch := info_Arch info, Version := info_Version info,
                                Status := 1, LastSeenAt := nowMilli env,
                                UpdatedAt := nowMilli env\<rparr>
            \<and> tbl1 = map (\<lambda>row. if ID row = ID agent then agent else row) tbl)"
proof -
  have k: "info_ID info \<in> set (map ID tbl)" using assms(1) by (rule find_in_map_ID)
  show ?thesis
    using assms k
    by (auto simp: RegisterAgent_def FindById_def UpdateById_def Create_def Let_def
        split: option.splits if_splits)
qed

text \<open>
  Claim C6. When the agent table holds a row for the agent id of the message (ids being
  the primary key, no two rows share one), a registration with that id leaves the ids of
  the table as they are, row for row, so no second row is created, and leaves every
  \<open>CreatedAt\<close> as it is; when it succeeds, the row of that id is the returned agent,
  with the \<open>CreatedAt\<close> it had.
\<close>

theorem RegisterAgent_in_place:
  assumes "distinct (map ID tbl)"
    and "find (\<lambda>a. ID a = info_ID info) tbl = Some existing"
    and "RegisterAgent env tbl ip info = (tbl1, result)"
  shows "map ID tbl1 = map ID tbl
       \<and> length (filter (\<lambda>a. ID a = info_ID info) tbl1) = 1
       \<and> map CreatedAt tbl1 = map CreatedAt tbl
       \<and> (\<forall>agent. result = Inr agent \<longrightarrow>
            find (\<lambda>a. ID a = info_ID info) tbl1 = Some agent
          \<and> CreatedAt agent = CreatedAt existing
          \<and> tbl1 = map (\<lambda>row. if ID row = info_ID info then agent else row) tbl)"
proof -
  have ex: "ID existing = info_ID info" "existing \<in> set tbl"
    using find_Some_ID [OF assms(2)] by simp_all
  have one: "\<And>t :: Agent list. map ID t = map ID tbl
      \<Longrightarrow> length (filter (\<lambda>a. ID a = info_ID info) t) = 1"
  proof -
    fix t :: "Agent list"
    assume m: "map ID t = map ID tbl"
    have "length (filter (\<lambda>a. ID a = info_ID info) t)
            = length (filter (\<lambda>k. k = info_ID info) (map ID t))"
      by (induction t) auto
    also have "\<dots> = length (filter (\<lambda>k. k = info_ID info) (map ID tbl))" using m by simp
    also have "\<dots> = 1"
      using assms(1) find_in_map_ID [OF assms(2)] by (rule distinct_filter_eq_one)
    finally show "length (filter (\<lambda>a. ID a = info_ID info) t) = 1" .
  qed
  from RegisterAgent_existing [OF assms(2,3)] show ?thesis
  proof
    assume "tbl1 = tbl \<and> (\<exists>err. result = Inl err)"
    then show ?thesis using one [of tbl] by auto
  next
    assume "\<exists>agent. result = Inr agent
            \<and> agent = existing\<lparr>Hostname := info_Hostname info, IP := ip, OS := info_OS info,
                                Arch := info_Arch info, Version := info_Version info,
                                Status := 1, LastSeenAt := nowMilli env,
                                UpdatedAt := nowMilli env\<rparr>
            \<and> tbl1 = map (\<lambda>row. if ID row = ID agent then agent else row) tbl"
    then obtain agent where r: "result = Inr agent"
      and a: "agent = existing\<lparr>Hostname := info_Hostname info, IP := ip, OS := info_OS info,
                                Arch := info_Arch info, Version := info_Version info,
                                Status := 1, LastSeenAt := nowMilli env,
                                UpdatedAt := nowMilli env\<rparr>"
      and t: "tbl1 = map (\<lambda>row. if ID row = ID agent then agent else row) tbl"
      by blast
    have id: "ID agent = info_ID info" using a ex by simp
    have cr: "CreatedAt agent = CreatedAt existing" using a by simp
    have m: "map ID tbl1 = map ID tbl" unfolding t by (rule map_ID_update)
    have "\<forall>row \<in> set tbl. ID row = ID agent \<longrightarrow> CreatedAt row = CreatedAt agent"
      using distinct_ID_same_row [OF assms(1) ex(2)] id ex(1) cr by metis
    then have c: "map CreatedAt tbl1 = map CreatedAt tbl"
      unfolding t by (rule map_CreatedAt_update)
    have f: "find (\<lambda>a. ID a = info_ID info) tbl1 = Some agent"
      unfolding t using assms(2) id by (rule find_update)
    show ?thesis using r m one [OF m] c f cr t id by simp
  qed
qed

text \<open>
  The theorem at a table of two agents and a registration with the id of the second: the
  table keeps its two ids and its two \<open>CreatedAt\<close> values, and the registration returns
  the row of \<open>a1\<close> with the \<open>CreatedAt\<close> it had.
\<close>

theorem RegisterAgent_in_place_witness:
  "distinct (map ID
     [\<lparr>ID = ''b2'', Name = ''db-1'', Hostname = ''db-host'', IP = ''10.0.0.9'', OS = ''linux'',
       Arch = ''amd64'', Version = ''1.0.0'', Status = 1, LastSeenAt = 1699999990000,
       CreatedAt = 1670000000000, UpdatedAt = 1699999990000\<rparr>,
      \<lparr>ID = ''a1'', Name = ''web-1'', Hostname = ''old-host'', IP = ''10.0.0.1'', OS = ''linux'',
       Arch = ''amd64'', Version = ''1.0.0'', Status = 0, LastSeenAt = 1690000000000,
       CreatedAt = 1680000000000, UpdatedAt = 1690000000000\<rparr>])
   \<and> (case RegisterAgent
        \<lparr>nowMilli = 1700000000000, apiKeyError = None, findFails = False, updateFails = False,
         createFails = False\<rparr>
        [\<lparr>ID = ''b2'', Name = ''db-1'', Hostname = ''db-host'', IP = ''10.0.0.9'', OS = ''linux'',
          Arch = ''amd64'', Version = ''1.0.0'', Status = 1, LastSeenAt = 1699999990000,
          CreatedAt = 1670000000000, UpdatedAt = 1699999990000\<rparr>,
         \<lparr>ID = ''a1'', Name = ''web-1'', Hostname = ''old-host'', IP = ''10.0.0.1'', OS = ''linux'',
          Arch = ''amd64'', Version = ''1.0.0'', Status = 0, LastSeenAt = 1690000000000,
          CreatedAt = 1680000000000, UpdatedAt = 1690000000000\<rparr>]
        ''10.0.0.2''
        \<lparr>info_ID = ''a1'', info_Name = ''web-1'', info_Hostname = ''new-host'', info_OS = ''linux'',
         info_Arch = ''arm64'', info_Version = ''1.1.0''\<rparr>
      of (tbl1, result) \<Rightarrow>
        map ID tbl1 = [''b2'', ''a1'']
        \<and> map CreatedAt tbl1 = [1670000000000, 1680000000000]
        \<and> (case result of Inl err \<Rightarrow> False
            | Inr agent \<Rightarrow> CreatedAt agent = 1680000000000 \<and> Hostname agent = ''new-host''))"
proof -
  let ?other = "\<lparr>ID = ''b2'', Name = ''db-1'', Hostname = ''db-host'', IP = ''10.0.0.9'',
      OS = ''linux'', Arch = ''amd64'', Version = ''1.0.0'', Status = 1,
      LastSeenAt = 1699999990000, CreatedAt = 1670000000000, UpdatedAt = 1699999990000\<rparr>"
  let ?existing = "\<lparr>ID = ''a1'', Name = ''web-1'', Hostname = ''old-host'', IP = ''10.0.0.1'',
      OS = ''linux'', Arch = ''amd64'', Version = ''1.0.0'', Status = 0,
      LastSeenAt = 1690000000000, CreatedAt = 1680000000000, UpdatedAt = 1690000000000\<rparr>"
  let ?env = "\<lparr>nowMilli = 1700000000000, apiKeyError = None, findFails = False,
      updateFails = False, createFails = False\<rparr>"
  let ?info = "\<lparr>info_ID = ''a1'', info_Name = ''web-1'', info_Hostname = ''new-host'',
      info_OS = ''linux'', info_Arch = ''arm64'', info_Version = ''1.1.0''\<rparr>"
  obtain tbl1 result where r:
    "RegisterAgent ?env [?other, ?existing] ''10.0.0.2'' ?info = (tbl1, result)"
    by (cases "RegisterAgent ?env [?other, ?existing] ''10.0.0.2'' ?info") blast
  have d: "distinct (map ID [?other, ?existing])" by simp
  have f: "find (\<lambda>a. ID a = info_ID ?info) [?other, ?existing] = Some ?existing" by simp
  note t = RegisterAgent_in_place [OF d f r]
  have ok: "\<exists>agent. result = Inr agent \<and> Hostname agent = ''new-host''"
    using r by (auto simp: RegisterAgent_def FindById_def UpdateById_def Let_def)
  then obtain agent where a: "result = Inr agent" and h: "Hostname agent = ''new-host''"
    by blast
  have m: "map ID tbl1 = map ID [?other, ?existing]" using t by blast
  have c: "map CreatedAt tbl1 = map CreatedAt [?other, ?existing]" using t by blast
  have ca: "CreatedAt agent = CreatedAt ?existing" using t a by blast
  have "map ID tbl1 = [''b2'', ''a1'']" using m by simp
  moreover have "map CreatedAt tbl1 = [1670000000000, 1680000000000]" using c by simp
  moreover have "CreatedAt agent = 1680000000000" using ca by simp
  ultimately show ?thesis using d r a h by simp
qed

text \<open>
  Claim C5 at a concrete re-registration. The row of \<open>a1\<close> is stored under the name
  \<open>web-1\<close>; the register message carries the name \<open>web-1-renamed\<close>. The registration
  succeeds and overwrites hostname, address, OS, arch and version, sets the status to
  online and \<open>LastSeenAt\<close> to the clock, and leaves the stored name as it was: the name
  of the message is not written.
\<close>

theorem RegisterAgent_keeps_stored_name:
  "RegisterAgent
     \<lparr>nowMilli = 1700000000000, apiKeyError = None, findFails = False, updateFails = False,
      createFails = False\<rparr>
     [\<lparr>ID = ''a1'', Name = ''web-1'', Hostname = ''old-host'', IP = ''10.0.0.1'', OS = ''linux'',
       Arch = ''amd64'', Version = ''1.0.0'', Status = 0, LastSeenAt = 1690000000000,
       CreatedAt = 1680000000000, UpdatedAt = 1690000000000\<rparr>]
     ''10.0.0.2''
     \<lparr>info_ID = ''a1'', info_Name = ''web-1-renamed'', info_Hostname = ''new-host'',
      info_OS = ''freebsd'', info_Arch = ''arm64'', info_Version = ''1.1.0''\<rparr>
   = ([\<lparr>ID = ''a1'', Name = ''web-1'', Hostname = ''new-host'', IP = ''10.0.0.2'',
        OS = ''freebsd'', Arch = ''arm64'', Version = ''1.1.0'', Status = 1,
        LastSeenAt = 1700000000000, CreatedAt = 1680000000000, UpdatedAt = 1700000000000\<rparr>],
      Inr \<lparr>ID = ''a1'', Name = ''web-1'', Hostname = ''new-host'', IP = ''10.0.0.2'',
        OS = ''freebsd'', Arch = ''arm64'', Version = ''1.1.0'', Status = 1,
        LastSeenAt = 1700000000000, CreatedAt = 1680000000000, UpdatedAt = 1700000000000\<rparr>)
   \<and> ''web-1'' \<noteq> ''web-1-renamed''"
  by (simp add: RegisterAgent_def FindById_def UpdateById_def Let_def)

section \<open>Properties of metric ingestion\<close>

text \<open>
  What the loop of an array kind leaves: the rows of the elements whose save call does
  not fail, in order, after the rows that were there, and one log entry for each call
  that fails.
\<close>

lemma saveEach_rows:
  "metricRows (saveEach saveFails msg mk n xs st)
     = metricRows st @ map (mk \<circ> snd) (filter (\<lambda>(i, x). \<not> saveFails i) (enumerate n xs))"
  by (induction xs arbitrary: n st) (simp_all add: saveMetric_def)

lemma saveEach_log:
  "metricLog (saveEach saveFails msg mk n xs st)
     = metricLog st @ map (\<lambda>e. msg) (filter (\<lambda>(i, x). saveFails i) (enumerate n xs))"
  by (induction xs arbitrary: n st) (simp_all add: saveMetric_def)

text \<open>
  The loop of the disk I/O kind does the same up to the first \<^verbatim>\<open>nil\<close> element,
  where it panics.
\<close>

lemma saveEachDiskIO_rows:
  "metricRows (fst (saveEachDiskIO saveFails msg agentID now n xs st))
     = metricRows st
       @ map (\<lambda>(i, x). DiskIORow (mkDiskIOMetric agentID now (the x)))
           (filter (\<lambda>(i, x). \<not> saveFails i) (enumerate n (takeWhile (\<lambda>x. x \<noteq> None) xs)))"
proof (induction xs arbitrary: n st)
  case Nil
  then show ?case by simp
next
  case (Cons x xs)
  then show ?case by (cases x) (simp_all add: saveMetric_def)
qed

lemma saveEachDiskIO_outcome:
  "snd (saveEachDiskIO saveFails msg agentID now n xs st)
     = (if None \<in> set xs then PanicNilPointer else Returned None)"
proof (induction xs arbitrary: n st)
  case Nil
  then show ?case by simp
next
  case (Cons x xs)
  then show ?case by (cases x) (simp_all add: saveMetric_def)
qed

lemma saveOne_rows:
  "metricRows (fst (saveOne saveFails row st))
     = metricRows st @ (if saveFails 0 then [] else [row])"
  by (simp add: saveOne_def saveMetric_def)

lemmas MetricType_defs =
  MetricTypeCPU_def MetricTypeMemory_def MetricTypeDisk_def MetricTypeNetwork_def
  MetricTypeNetworkConnection_def MetricTypeDiskIO_def MetricTypeHost_def MetricTypeGPU_def
  MetricTypeTemperature_def MetricTypeMonitor_def

lemmas mkMetric_defs =
  mkCPUMetric_def mkMemoryMetric_def mkDiskMetric_def mkNetworkMetric_def
  mkNetworkConnectionMetric_def mkDiskIOMetric_def mkHostMetric_def mkGPUMetric_def
  mkTemperatureMetric_def mkMonitorMetric_def

lemma stampedNow_simps:
  "stampedNow now []"
  "stampedNow now [row] = (rowTimestamp row = now)"
  by (simp_all add: stampedNow_def)

lemma HandleMetricData_stamps_now:
  assumes "metricType \<noteq> MetricTypeMonitor"
  shows "\<exists>new. metricRows (fst (HandleMetricData now json saveFails st agentID metricType data))
                 = metricRows st @ new
               \<and> stampedNow now new"
proof -
  have each: "\<And>msg mk xs. \<forall>x. rowTimestamp (mk x) = now \<Longrightarrow>
      \<exists>new. metricRows (saveEach saveFails msg mk 0 xs st) = metricRows st @ new
            \<and> stampedNow now new"
    by (simp add: saveEach_rows stampedNow_def)
  have dio: "\<And>msg xs.
      \<exists>new. metricRows (fst (saveEachDiskIO saveFails msg agentID now 0 xs st)) = metricRows st @ new
            \<and> stampedNow now new"
    by (simp add: saveEachDiskIO_rows stampedNow_def mkDiskIOMetric_def case_prod_unfold)
  have one: "\<And>row. rowTimestamp row = now \<Longrightarrow>
      \<exists>new. metricRows (fst (saveOne saveFails row st)) = metricRows st @ new
            \<and> stampedNow now new"
    by (simp add: saveOne_rows stampedNow_simps)
  have same: "\<exists>new. metricRows st = metricRows st @ new \<and> stampedNow now new"
    by (simp add: stampedNow_simps)
  consider (cpu) "metricType = MetricTypeCPU" | (memory) "metricType = MetricTypeMemory"
    | (disk) "metricType = MetricTypeDisk" | (network) "metricType = MetricTypeNetwork"
    | (conn) "metricType = MetricTypeNetworkConnection" | (diskio) "metricType = MetricTypeDiskIO"
    | (host) "metricType = MetricTypeHost" | (gpu) "metricType = MetricTypeGPU"
    | (temperature) "metricType = MetricTypeTemperature"
    | (unknown) "metricType \<notin> {MetricTypeCPU, MetricTypeMemory, MetricTypeDisk, MetricTypeNetwork,
         MetricTypeNetworkConnection, MetricTypeDiskIO, MetricTypeHost, MetricTypeGPU,
         MetricTypeTemperature, MetricTypeMonitor}"
    using assms by blast
  then show ?thesis
  proof cases
    case cpu
    have "rowTimestamp (CPURow (mkCPUMetric agentID now d)) = now" for d
      by (simp add: mkCPUMetric_def)
    then show ?thesis using cpu same one
      by (simp add: HandleMetricData_def split: sum.splits)
  next
    case memory
    have "rowTimestamp (MemoryRow (mkMemoryMetric agentID now d)) = now" for d
      by (simp add: mkMemoryMetric_def)
    then show ?thesis using memory same one
      by (simp add: HandleMetricData_def MetricType_defs split: sum.splits)
  next
    case disk
    have "rowTimestamp (DiskRow (mkDiskMetric agentID now d)) = now" for d
      by (simp add: mkDiskMetric_def)
    then have "\<exists>new. metricRows (saveEach saveFails msg mk 0 xs st) = metricRows st @ new
            \<and> stampedNow now new"
      if "mk = (\<lambda>d. DiskRow (mkDiskMetric agentID now d))" for msg mk xs
      using each [of mk msg xs] that by simp
    then show ?thesis using disk same
      by (simp add: HandleMetricData_def MetricType_defs split: sum.splits)
  next
    case network
    have "rowTimestamp (NetworkRow (mkNetworkMetric agentID now d)) = now" for d
      by (simp add: mkNetworkMetric_def)
    then have "\<exists>new. metricRows (saveEach saveFails msg mk 0 xs st) = metricRows st @ new
            \<and> stampedNow now new"
      if "mk = (\<lambda>d. NetworkRow (mkNetworkMetric agentID now d))" for msg mk xs
      using each [of mk msg xs] that by simp
    then show ?thesis using network same
      by (simp add: HandleMetricData_def MetricType_defs split: sum.splits)
  next
    case conn
    have "rowTimestamp (NetworkConnectionRow (mkNetworkConnectionMetric agentID now d)) = now" for d
      by (simp add: mkNetworkConnectionMetric_def)
    then show ?thesis using conn same one
      by (simp add: HandleMetricData_def MetricType_defs split: sum.splits)
  next
    case diskio
    then show ?thesis using same dio
      by (simp add: HandleMetricData_def MetricType_defs split: sum.splits)
  next
    case host
    have "rowTimestamp (HostRow (mkHostMetric agentID now d)) = now" for d
      by (simp add: mkHostMetric_def)
    then show ?thesis using host same one
      by (simp add: HandleMetricData_def MetricType_defs split: sum.splits)
  next
    case gpu
    have "rowTimestamp (GPURow (mkGPUMetric agentID now d)) = now" for d
      by (simp add: mkGPUMetric_def)
    then have "\<exists>new. metricRows (saveEach saveFails msg mk 0 xs st) = metricRows st @ new
            \<and> stampedNow now new"
      if "mk = (\<lambda>d. GPURow (mkGPUMetric agentID now d))" for msg mk xs
      using each [of mk msg xs] that by simp
    then show ?thesis using gpu same
      by (simp add: HandleMetricData_def MetricType_defs split: sum.splits)
  next
    case temperature
    have "rowTimestamp (TemperatureRow (mkTemperatureMetric agentID now d)) = now" for d
      by (simp add: mkTemperatureMetric_def)
    then have "\<exists>new. metricRows (saveEach saveFails msg mk 0 xs st) = metricRows st @ new
            \<and> stampedNow now new"
      if "mk = (\<lambda>d. TemperatureRow (mkTemperatureMetric agentID now d))" for msg mk xs
      using each [of mk msg xs] that by simp
    then show ?thesis using temperature same
      by (simp add: HandleMetricData_def MetricType_defs split: sum.splits)
  next
    case unknown
    then show ?thesis using same
      by (simp add: HandleMetricData_def)
  qed
qed

text \<open>
  The rows a synthetic-monitor frame adds are the rows of the elements whose save call does
  not fail, each stamped with the \<open>CheckedAt\<close> of its element.
\<close>

lemma HandleMetricData_monitor:
  assumes "unmarshalMonitor json data = Inr monitorDataList"
  shows "metricRows (fst (HandleMetricData now json saveFails st agentID MetricTypeMonitor data))
         = metricRows st
           @ map (\<lambda>(i, monitorData). MonitorRow (mkMonitorMetric agentID monitorData))
               (filter (\<lambda>(i, monitorData). \<not> saveFails i) (enumerate 0 monitorDataList))"
  using assms
  by (simp add: HandleMetricData_def MetricType_defs saveEach_rows case_prod_unfold comp_def)

lemma HandleMetricData_monitor_error:
  assumes "unmarshalMonitor json data = Inl err"
  shows "fst (HandleMetricData now json saveFails st agentID MetricTypeMonitor data) = st"
  using assms by (simp add: HandleMetricData_def MetricType_defs)

text \<open>
  The loop of an array kind, in terms of \<open>savedRows\<close> and \<open>failedSaves\<close>.
\<close>

lemma saveEach_result:
  "metricRows (saveEach saveFails msg mk 0 xs st) = metricRows st @ savedRows saveFails mk xs
   \<and> metricLog (saveEach saveFails msg mk 0 xs st)
       = metricLog st @ replicate (failedSaves saveFails xs) msg"
  by (simp add: saveEach_rows saveEach_log savedRows_def failedSaves_def map_replicate_const)

lemma saveEachDiskIO_no_nil:
  "saveEachDiskIO saveFails msg agentID now n (map Some ds) st
     = (saveEach saveFails msg (\<lambda>d. DiskIORow (mkDiskIOMetric agentID now d)) n ds st,
        Returned None)"
  by (induction ds arbitrary: n st) (simp_all split: prod.splits option.splits)

text \<open>Every element of a frame is either saved or counted as a failed save.\<close>

lemma savedRows_length:
  "length (savedRows saveFails mk xs) + failedSaves saveFails xs = length xs"
proof -
  have "length (filter (\<lambda>p. \<not> saveFails (fst p)) ys) + length (filter (\<lambda>p. saveFails (fst p)) ys)
          = length ys" for ys :: "(nat \<times> 'a) list"
    by (induction ys) auto
  from this [of "enumerate 0 xs"] show ?thesis
    by (simp add: savedRows_def failedSaves_def case_prod_unfold)
qed

lemma savedRows_no_failure:
  assumes "\<forall>i. \<not> saveFails i"
  shows "savedRows saveFails mk xs = map mk xs"
proof -
  have "filter (\<lambda>(i, x). \<not> saveFails i) (enumerate 0 xs) = enumerate 0 xs"
    using assms by (simp add: case_prod_unfold)
  moreover have "map (mk \<circ> snd) (enumerate 0 xs) = map mk xs"
    by (simp flip: map_map)
  ultimately show ?thesis by (simp only: savedRows_def)
qed

text \<open>
  Claim C7. For every kind, the rows a frame adds to the raw tables are exactly the rows
  built from its payload whose save call does not fail: the one row of a scalar kind
  (CPU, memory, network connections, host), one row for each element of an array kind
  (for disk I/O, for each element before the first \<^verbatim>\<open>null\<close>). When no save call
  fails, that is one row for the payload or for each of its elements. Each of these rows
  carries the server's clock reading \<open>now\<close> as its timestamp, except the rows of a
  synthetic-monitor frame, each of which carries the \<open>CheckedAt\<close> of its element. A
  frame of any kind but the synthetic monitor, whether it decodes or not, adds only rows
  stamped \<open>now\<close>, and a synthetic-monitor frame that does not decode adds nothing.
\<close>

theorem HandleMetricData_timestamps:
  "(\<forall>cpuData. unmarshalCPU json data = Inr cpuData \<longrightarrow>
      metricRows (fst (HandleMetricData now json saveFails st agentID MetricTypeCPU data))
        = metricRows st
          @ (if saveFails 0 then [] else [CPURow (mkCPUMetric agentID now cpuData)])
      \<and> rowTimestamp (CPURow (mkCPUMetric agentID now cpuData)) = now)
   \<and> (\<forall>memData. unmarshalMemory json data = Inr memData \<longrightarrow>
      metricRows (fst (HandleMetricData now json saveFails st agentID MetricTypeMemory data))
        = metricRows st
          @ (if saveFails 0 then [] else [MemoryRow (mkMemoryMetric agentID now memData)])
      \<and> rowTimestamp (MemoryRow (mkMemoryMetric agentID now memData)) = now)
   \<and> (\<forall>xs. unmarshalDisk json data = Inr xs \<longrightarrow>
      metricRows (fst (HandleMetricData now json saveFails st agentID MetricTypeDisk data))
        = metricRows st @ savedRows saveFails (\<lambda>x. DiskRow (mkDiskMetric agentID now x)) xs
      \<and> (\<forall>x. rowTimestamp (DiskRow (mkDiskMetric agentID now x)) = now))
   \<and> (\<forall>xs. unmarshalNetwork json data = Inr xs \<longrightarrow>
      metricRows (fst (HandleMetricData now json saveFails st agentID MetricTypeNetwork data))
        = metricRows st @ savedRows saveFails (\<lambda>x. NetworkRow (mkNetworkMetric agentID now x)) xs
      \<and> (\<forall>x. rowTimestamp (NetworkRow (mkNetworkMetric agentID now x)) = now))
   \<and> (\<forall>connData. unmarshalNetworkConnection json data = Inr connData \<longrightarrow>
      metricRows (fst (HandleMetricData now json saveFails st agentID MetricTypeNetworkConnection data))
        = metricRows st
          @ (if saveFails 0 then [] else [NetworkConnectionRow (mkNetworkConnectionMetric agentID now connData)])
      \<and> rowTimestamp (NetworkConnectionRow (mkNetworkConnectionMetric agentID now connData)) = now)
   \<and> (\<forall>xs. unmarshalDiskIO json data = Inr xs \<longrightarrow>
      metricRows (fst (HandleMetricData now json saveFails st agentID MetricTypeDiskIO data))
        = metricRows st
          @ savedRows saveFails (\<lambda>x. DiskIORow (mkDiskIOMetric agentID now (the x)))
              (takeWhile (\<lambda>x. x \<noteq> None) xs)
      \<and> (\<forall>x. rowTimestamp (DiskIORow (mkDiskIOMetric agentID now x)) = now))
   \<and> (\<forall>hostData. unmarshalHost json data = Inr hostData \<longrightarrow>
      metricRows (fst (HandleMetricData now json saveFails st agentID MetricTypeHost data))
        = metricRows st
          @ (if saveFails 0 then [] else [HostRow (mkHostMetric agentID now hostData)])
      \<and> rowTimestamp (HostRow (mkHostMetric agentID now hostData)) = now)
   \<and> (\<forall>xs. unmarshalGPU json data = Inr xs \<longrightarrow>
      metricRows (fst (HandleMetricData now json saveFails st agentID MetricTypeGPU data))
        = metricRows st @ savedRows saveFails (\<lambda>x. GPURow (mkGPUMetric agentID now x)) xs
      \<and> (\<forall>x. rowTimestamp (GPURow (mkGPUMetric agentID now x)) = now))
   \<and> (\<forall>xs. unmarshalTemperature json data = Inr xs \<longrightarrow>
      metricRows (fst (HandleMetricData now json saveFails st agentID MetricTypeTemperature data))
        = metricRows st @ savedRows saveFails (\<lambda>x. TemperatureRow (mkTemperatureMetric agentID now x)) xs
      \<and> (\<forall>x. rowTimestamp (TemperatureRow (mkTemperatureMetric agentID now x)) = now))
   \<and> (\<forall>xs. unmarshalMonitor json data = Inr xs \<longrightarrow>
      metricRows (fst (HandleMetricData now json saveFails st agentID MetricTypeMonitor data))
        = metricRows st @ savedRows saveFails (\<lambda>x. MonitorRow (mkMonitorMetric agentID x)) xs
      \<and> (\<forall>x. rowTimestamp (MonitorRow (mkMonitorMetric agentID x)) = MonitorData_CheckedAt x))
   \<and> ((\<forall>i. \<not> saveFails i) \<longrightarrow> (\<forall>mk xs. savedRows saveFails mk xs = map mk xs))
   \<and> (metricType \<noteq> MetricTypeMonitor \<longrightarrow>
      (\<exists>new. metricRows (fst (HandleMetricData now json saveFails st agentID metricType data))
                = metricRows st @ new
             \<and> stampedNow now new))
   \<and> (\<forall>err. unmarshalMonitor json data = Inl err \<longrightarrow>
      fst (HandleMetricData now json saveFails st agentID MetricTypeMonitor data) = st)"
proof -
  have each: "metricRows (saveEach saveFails msg mk 0 xs st)
                = metricRows st @ savedRows saveFails mk xs"
    for msg and mk :: "'e \<Rightarrow> MetricRow" and xs
    using saveEach_result [of saveFails msg mk xs st] by simp
  have dio: "metricRows (fst (saveEachDiskIO saveFails msg agentID now 0 xs st))
               = metricRows st
                 @ savedRows saveFails (\<lambda>x. DiskIORow (mkDiskIOMetric agentID now (the x)))
                     (takeWhile (\<lambda>x. x \<noteq> None) xs)"
    for msg xs
    by (simp add: saveEachDiskIO_rows savedRows_def case_prod_unfold comp_def)
  have cpu: "(\<forall>cpuData. unmarshalCPU json data = Inr cpuData \<longrightarrow>
      metricRows (fst (HandleMetricData now json saveFails st agentID MetricTypeCPU data))
        = metricRows st
          @ (if saveFails 0 then [] else [CPURow (mkCPUMetric agentID now cpuData)])
      \<and> rowTimestamp (CPURow (mkCPUMetric agentID now cpuData)) = now)"
    by (simp add: HandleMetricData_def MetricType_defs saveOne_rows mkCPUMetric_def)
  have memory: "(\<forall>memData. unmarshalMemory json data = Inr memData \<longrightarrow>
      metricRows (fst (HandleMetricData now json saveFails st agentID MetricTypeMemory data))
        = metricRows st
          @ (if saveFails 0 then [] else [MemoryRow (mkMemoryMetric agentID now memData)])
      \<and> rowTimestamp (MemoryRow (mkMemoryMetric agentID now memData)) = now)"
    by (simp add: HandleMetricData_def MetricType_defs saveOne_rows mkMemoryMetric_def)
  have disk: "(\<forall>xs. unmarshalDisk json data = Inr xs \<longrightarrow>
      metricRows (fst (HandleMetricData now json saveFails st agentID MetricTypeDisk data))
        = metricRows st @ savedRows saveFails (\<lambda>x. DiskRow (mkDiskMetric agentID now x)) xs
      \<and> (\<forall>x. rowTimestamp (DiskRow (mkDiskMetric agentID now x)) = now))"
    by (simp add: HandleMetricData_def MetricType_defs each mkDiskMetric_def)
  have network: "(\<forall>xs. unmarshalNetwork json data = Inr xs \<longrightarrow>
      metricRows (fst (HandleMetricData now json saveFails st agentID MetricTypeNetwork data))
        = metricRows st @ savedRows saveFails (\<lambda>x. NetworkRow (mkNetworkMetric agentID now x)) xs
      \<and> (\<forall>x. rowTimestamp (NetworkRow (mkNetworkMetric agentID now x)) = now))"
    by (simp add: HandleMetricData_def MetricType_defs each mkNetworkMetric_def)
  have conn: "(\<forall>connData. unmarshalNetworkConnection json data = Inr connData \<longrightarrow>
      metricRows (fst (HandleMetricData now json saveFails st agentID MetricTypeNetworkConnection data))
        = metricRows st
          @ (if saveFails 0 then [] else [NetworkConnectionRow (mkNetworkConnectionMetric agentID now connData)])
      \<and> rowTimestamp (NetworkConnectionRow (mkNetworkConnectionMetric agentID now connData)) = now)"
    by (simp add: HandleMetricData_def MetricType_defs saveOne_rows mkNetworkConnectionMetric_def)
  have diskio: "(\<forall>xs. unmarshalDiskIO json data = Inr xs \<longrightarrow>
      metricRows (fst (HandleMetricData now json saveFails st agentID MetricTypeDiskIO data))
        = metricRows st
          @ savedRows saveFails (\<lambda>x. DiskIORow (mkDiskIOMetric agentID now (the x)))
              (takeWhile (\<lambda>x. x \<noteq> None) xs)
      \<and> (\<forall>x. rowTimestamp (DiskIORow (mkDiskIOMetric agentID now x)) = now))"
    by (simp add: HandleMetricData_def MetricType_defs dio mkDiskIOMetric_def)
  have host: "(\<forall>hostData. unmarshalHost json data = Inr hostData \<longrightarrow>
      metricRows (fst (HandleMetricData now json saveFails st agentID MetricTypeHost data))
        = metricRows st
          @ (if saveFails 0 then [] else [HostRow (mkHostMetric agentID now hostData)])
      \<and> rowTimestamp (HostRow (mkHostMetric agentID now hostData)) = now)"
    by (simp add: HandleMetricData_def MetricType_defs saveOne_rows mkHostMetric_def)
  have gpu: "(\<forall>xs. unmarshalGPU json data = Inr xs \<longrightarrow>
      metricRows (fst (HandleMetricData now json saveFails st agentID MetricTypeGPU data))
        = metricRows st @ savedRows saveFails (\<lambda>x. GPURow (mkGPUMetric agentID now x)) xs
      \<and> (\<forall>x. rowTimestamp (GPURow (mkGPUMetric agentID now x)) = now))"
    by (simp add: HandleMetricData_def MetricType_defs each mkGPUMetric_def)
  have temperature: "(\<forall>xs. unmarshalTemperature json data = Inr xs \<longrightarrow>
      metricRows (fst (HandleMetricData now json saveFails st agentID MetricTypeTemperature data))
        = metricRows st @ savedRows saveFails (\<lambda>x. TemperatureRow (mkTemperatureMetric agentID now x)) xs
      \<and> (\<forall>x. rowTimestamp (TemperatureRow (mkTemperatureMetric agentID now x)) = now))"
    by (simp add: HandleMetricData_def MetricType_defs each mkTemperatureMetric_def)
  have monitor: "(\<forall>xs. unmarshalMonitor json data = Inr xs \<longrightarrow>
      metricRows (fst (HandleMetricData now json saveFails st agentID MetricTypeMonitor data))
        = metricRows st @ savedRows saveFails (\<lambda>x. MonitorRow (mkMonitorMetric agentID x)) xs
      \<and> (\<forall>x. rowTimestamp (MonitorRow (mkMonitorMetric agentID x)) = MonitorData_CheckedAt x))"
    by (simp add: HandleMetricData_def MetricType_defs each mkMonitorMetric_def)
  have nofail: "((\<forall>i. \<not> saveFails i) \<longrightarrow> (\<forall>mk xs. savedRows saveFails mk xs = map mk xs))"
    by (intro impI allI) (rule savedRows_no_failure)
  have general: "(metricType \<noteq> MetricTypeMonitor \<longrightarrow>
      (\<exists>new. metricRows (fst (HandleMetricData now json saveFails st agentID metricType data))
                = metricRows st @ new
             \<and> stampedNow now new))"
    by (intro impI) (rule HandleMetricData_stamps_now)
  have undecoded: "(\<forall>err. unmarshalMonitor json data = Inl err \<longrightarrow>
      fst (HandleMetricData now json saveFails st agentID MetricTypeMonitor data) = st)"
    by (intro allI impI) (rule HandleMetricData_monitor_error)
  show ?thesis
    by (intro conjI) (rule cpu memory disk network conn diskio host gpu temperature monitor
        nofail general undecoded)+
qed

text \<open>
  The theorem at a CPU frame and at a synthetic-monitor frame of one check, both ingested
  at a clock of 1700000000000: the CPU row is stamped 1700000000000, the monitor row is
  stamped with the 1699999990000 of its check.
\<close>

theorem HandleMetricData_timestamps_witness:
  "''cpu'' \<noteq> MetricTypeMonitor
   \<and> map rowTimestamp (metricRows (fst (HandleMetricData 1700000000000
        \<lparr>unmarshalCPU = (\<lambda>raw. Inr \<lparr>CPUData_UsagePercent = 42, CPUData_LogicalCores = 8,
            CPUData_PhysicalCores = 4, CPUData_ModelName = ''cpu-model''\<rparr>),
         unmarshalMemory = (\<lambda>raw. Inl ErrJSON), unmarshalDisk = (\<lambda>raw. Inl ErrJSON),
         unmarshalNetwork = (\<lambda>raw. Inl ErrJSON),
         unmarshalNetworkConnection = (\<lambda>raw. Inl ErrJSON),
         unmarshalDiskIO = (\<lambda>raw. Inl ErrJSON), unmarshalHost = (\<lambda>raw. Inl ErrJSON),
         unmarshalGPU = (\<lambda>raw. Inl ErrJSON), unmarshalTemperature = (\<lambda>raw. Inl ErrJSON),
         unmarshalMonitor = (\<lambda>raw. Inr [\<lparr>MonitorData_ID = ''m1'', MonitorData_Type = ''https'',
            MonitorData_Target = ''https://example.org'', MonitorData_Status = ''up'',
            MonitorData_StatusCode = 200, MonitorData_ResponseTime = 120,
            MonitorData_Error = [], MonitorData_Message = ''ok'',
            MonitorData_ContentMatch = True, MonitorData_CertExpiryTime = 1710000000000,
            MonitorData_CertDaysLeft = 115, MonitorData_CheckedAt = 1699999990000\<rparr>])\<rparr>
        (\<lambda>n. False) \<lparr>metricRows = [], metricLog = []\<rparr> ''a1'' ''cpu'' ''frame'')))
       = [1700000000000]
   \<and> map rowTimestamp (metricRows (fst (HandleMetricData 1700000000000
        \<lparr>unmarshalCPU = (\<lambda>raw. Inr \<lparr>CPUData_UsagePercent = 42, CPUData_LogicalCores = 8,
            CPUData_PhysicalCores = 4, CPUData_ModelName = ''cpu-model''\<rparr>),
         unmarshalMemory = (\<lambda>raw. Inl ErrJSON), unmarshalDisk = (\<lambda>raw. Inl ErrJSON),
         unmarshalNetwork = (\<lambda>raw. Inl ErrJSON),
         unmarshalNetworkConnection = (\<lambda>raw. Inl ErrJSON),
         unmarshalDiskIO = (\<lambda>raw. Inl ErrJSON), unmarshalHost = (\<lambda>raw. Inl ErrJSON),
         unmarshalGPU = (\<lambda>raw. Inl ErrJSON), unmarshalTemperature = (\<lambda>raw. Inl ErrJSON),
         unmarshalMonitor = (\<lambda>raw. Inr [\<lparr>MonitorData_ID = ''m1'', MonitorData_Type = ''https'',
            MonitorData_Target = ''https://example.org'', MonitorData_Status = ''up'',
            MonitorData_StatusCode = 200, MonitorData_ResponseTime = 120,
            MonitorData_Error = [], MonitorData_Message = ''ok'',
            MonitorData_ContentMatch = True, MonitorData_CertExpiryTime = 1710000000000,
            MonitorData_CertDaysLeft = 115, MonitorData_CheckedAt = 1699999990000\<rparr>])\<rparr>
        (\<lambda>n. False) \<lparr>metricRows = [], metricLog = []\<rparr> ''a1'' MetricTypeMonitor ''frame'')))
       = [1699999990000]"
proof -
  let ?mon = "\<lparr>MonitorData_ID = ''m1'', MonitorData_Type = ''https'',
            MonitorData_Target = ''https://example.org'', MonitorData_Status = ''up'',
            MonitorData_StatusCode = 200, MonitorData_ResponseTime = 120,
            MonitorData_Error = [], MonitorData_Message = ''ok'',
            MonitorData_ContentMatch = True, MonitorData_CertExpiryTime = 1710000000000,
            MonitorData_CertDaysLeft = 115, MonitorData_CheckedAt = 1699999990000\<rparr>"
  let ?json = "\<lparr>unmarshalCPU = (\<lambda>raw::string. Inr \<lparr>CPUData_UsagePercent = 42,
            CPUData_LogicalCores = 8, CPUData_PhysicalCores = 4,
            CPUData_ModelName = ''cpu-model''\<rparr>),
         unmarshalMemory = (\<lambda>raw. Inl ErrJSON), unmarshalDisk = (\<lambda>raw. Inl ErrJSON),
         unmarshalNetwork = (\<lambda>raw. Inl ErrJSON),
         unmarshalNetworkConnection = (\<lambda>raw. Inl ErrJSON),
         unmarshalDiskIO = (\<lambda>raw. Inl ErrJSON), unmarshalHost = (\<lambda>raw. Inl ErrJSON),
         unmarshalGPU = (\<lambda>raw. Inl ErrJSON), unmarshalTemperature = (\<lambda>raw. Inl ErrJSON),
         unmarshalMonitor = (\<lambda>raw. Inr [?mon])\<rparr>"
  let ?st = "\<lparr>metricRows = [], metricLog = []\<rparr>"
  let ?cpu = "HandleMetricData 1700000000000 ?json (\<lambda>n. False) ?st ''a1'' ''cpu'' ''frame''"
  let ?monitor = "HandleMetricData 1700000000000 ?json (\<lambda>n. False) ?st ''a1'' MetricTypeMonitor ''frame''"
  have k: "''cpu'' \<noteq> MetricTypeMonitor" by (simp add: MetricTypeMonitor_def)
  have uc: "unmarshalCPU ?json ''frame'' = Inr \<lparr>CPUData_UsagePercent = 42,
            CPUData_LogicalCores = 8, CPUData_PhysicalCores = 4,
            CPUData_ModelName = ''cpu-model''\<rparr>"
    by simp
  note T1 = HandleMetricData_timestamps
    [of ?json "''frame''" 1700000000000 "\<lambda>n. False" ?st "''a1''" "''cpu''"]
  note C = T1 [THEN conjunct1, THEN spec, THEN mp, OF uc]
  have c: "map rowTimestamp (metricRows (fst ?cpu)) = [1700000000000]"
    using C by (simp add: MetricTypeCPU_def)
  have u: "unmarshalMonitor ?json ''frame'' = Inr [?mon]" by simp
  note M = T1 [THEN conjunct2, THEN conjunct2, THEN conjunct2, THEN conjunct2, THEN conjunct2,
      THEN conjunct2, THEN conjunct2, THEN conjunct2, THEN conjunct2, THEN conjunct1,
      THEN spec, THEN mp, OF u]
  have s: "savedRows (\<lambda>n. False) (\<lambda>x. MonitorRow (mkMonitorMetric ''a1'' x)) [?mon]
             = [MonitorRow (mkMonitorMetric ''a1'' ?mon)]"
    by (simp add: savedRows_def)
  have "map rowTimestamp (metricRows (fst ?monitor)) = [1699999990000]"
    using M unfolding s by simp
  then show ?thesis using k c by (simp only: simp_thms)
qed

text \<open>
  A disk I/O frame with a \<^verbatim>\<open>null\<close> element panics; without one it returns no error,
  like a frame of any other array kind.
\<close>

lemma HandleMetricData_diskio_outcome:
  assumes "unmarshalDiskIO json data = Inr diskIODataList"
  shows "snd (HandleMetricData now json saveFails st agentID MetricTypeDiskIO data)
         = (if None \<in> set diskIODataList then PanicNilPointer else Returned None)"
  using assms by (simp add: HandleMetricData_def MetricType_defs saveEachDiskIO_outcome)

text \<open>
  The six array kinds. For a frame that decodes to the elements \<open>xs\<close> (for disk I/O,
  elements that are not \<^verbatim>\<open>null\<close>), \<^verbatim>\<open>HandleMetricData\<close> returns no error
  whatever save calls fail; it adds the rows of exactly the elements whose save call does
  not fail, in order, and logs one message for each save call that fails. So every
  element is either saved or logged, and when no save call fails there is one row for
  each element.
\<close>

lemma HandleMetricData_array_frames:
  "(\<forall>xs. unmarshalDisk json data = Inr xs \<longrightarrow>
      HandleMetricData now json saveFails st agentID MetricTypeDisk data
        = (st\<lparr>metricRows := metricRows st
                 @ savedRows saveFails (\<lambda>x. DiskRow (mkDiskMetric agentID now x)) xs,
              metricLog := metricLog st
                 @ replicate (failedSaves saveFails xs) ''failed to save disk metric''\<rparr>,
           Returned None))
   \<and> (\<forall>xs. unmarshalNetwork json data = Inr xs \<longrightarrow>
      HandleMetricData now json saveFails st agentID MetricTypeNetwork data
        = (st\<lparr>metricRows := metricRows st
                 @ savedRows saveFails (\<lambda>x. NetworkRow (mkNetworkMetric agentID now x)) xs,
              metricLog := metricLog st
                 @ replicate (failedSaves saveFails xs) ''failed to save network metric''\<rparr>,
           Returned None))
   \<and> (\<forall>xs. unmarshalDiskIO json data = Inr (map Some xs) \<longrightarrow>
      HandleMetricData now json saveFails st agentID MetricTypeDiskIO data
        = (st\<lparr>metricRows := metricRows st
                 @ savedRows saveFails (\<lambda>x. DiskIORow (mkDiskIOMetric agentID now x)) xs,
              metricLog := metricLog st
                 @ replicate (failedSaves saveFails xs) ''failed to save disk io metric''\<rparr>,
           Returned None))
   \<and> (\<forall>xs. unmarshalGPU json data = Inr xs \<longrightarrow>
      HandleMetricData now json saveFails st agentID MetricTypeGPU data
        = (st\<lparr>metricRows := metricRows st
                 @ savedRows saveFails (\<lambda>x. GPURow (mkGPUMetric agentID now x)) xs,
              metricLog := metricLog st
                 @ replicate (failedSaves saveFails xs) ''failed to save gpu metric''\<rparr>,
           Returned None))
   \<and> (\<forall>xs. unmarshalTemperature json data = Inr xs \<longrightarrow>
      HandleMetricData now json saveFails st agentID MetricTypeTemperature data
        = (st\<lparr>metricRows := metricRows st
                 @ savedRows saveFails (\<lambda>x. TemperatureRow (mkTemperatureMetric agentID now x)) xs,
              metricLog := metricLog st
                 @ replicate (failedSaves saveFails xs) ''failed to save temperature metric''\<rparr>,
           Returned None))
   \<and> (\<forall>xs. unmarshalMonitor json data = Inr xs \<longrightarrow>
      HandleMetricData now json saveFails st agentID MetricTypeMonitor data
        = (st\<lparr>metricRows := metricRows st
                 @ savedRows saveFails (\<lambda>x. MonitorRow (mkMonitorMetric agentID x)) xs,
              metricLog := metricLog st
                 @ replicate (failedSaves saveFails xs) ''failed to save monitor metric''\<rparr>,
           Returned None))
   \<and> (\<forall>mk xs. length (savedRows saveFails mk xs) + failedSaves saveFails xs = length xs)
   \<and> ((\<forall>i. \<not> saveFails i) \<longrightarrow> (\<forall>mk xs. savedRows saveFails mk xs = map mk xs))"
proof -
  have eq: "saveEach saveFails msg mk 0 xs st
          = st\<lparr>metricRows := metricRows st @ savedRows saveFails mk xs,
               metricLog := metricLog st @ replicate (failedSaves saveFails xs) msg\<rparr>"
    for msg mk and xs :: "'e list"
    using saveEach_result [of saveFails msg mk xs st] by simp
  show ?thesis
    by (intro conjI allI impI)
      (simp_all add: HandleMetricData_def MetricType_defs eq saveEachDiskIO_no_nil
        savedRows_length savedRows_no_failure)
qed

text \<open>
  A disk frame of three mounts whose second save call fails: the handler returns no
  error, the rows of the first and the third mount are written, and the failure is
  logged once.
\<close>

lemma HandleMetricData_array_frames_example:
  "HandleMetricData 1700000000000
     \<lparr>unmarshalCPU = (\<lambda>raw. Inl ErrJSON), unmarshalMemory = (\<lambda>raw. Inl ErrJSON),
      unmarshalDisk = (\<lambda>raw. Inr
        [\<lparr>DiskData_MountPoint = ''/'', DiskData_Total = 100, DiskData_Used = 40,
           DiskData_Free = 60, DiskData_UsagePercent = 40\<rparr>,
         \<lparr>DiskData_MountPoint = ''/home'', DiskData_Total = 200, DiskData_Used = 20,
           DiskData_Free = 180, DiskData_UsagePercent = 10\<rparr>,
         \<lparr>DiskData_MountPoint = ''/var'', DiskData_Total = 50, DiskData_Used = 25,
           DiskData_Free = 25, DiskData_UsagePercent = 50\<rparr>]),
      unmarshalNetwork = (\<lambda>raw. Inl ErrJSON),
      unmarshalNetworkConnection = (\<lambda>raw. Inl ErrJSON),
      unmarshalDiskIO = (\<lambda>raw. Inl ErrJSON), unmarshalHost = (\<lambda>raw. Inl ErrJSON),
      unmarshalGPU = (\<lambda>raw. Inl ErrJSON), unmarshalTemperature = (\<lambda>raw. Inl ErrJSON),
      unmarshalMonitor = (\<lambda>raw. Inl ErrJSON)\<rparr>
     (\<lambda>n. n = 1) \<lparr>metricRows = [], metricLog = []\<rparr> ''a1'' MetricTypeDisk ''frame''
   = (\<lparr>metricRows =
         [DiskRow \<lparr>DiskMetric_AgentID = ''a1'', DiskMetric_MountPoint = ''/'',
            DiskMetric_Total = 100, DiskMetric_Used = 40, DiskMetric_Free = 60,
            DiskMetric_UsagePercent = 40, DiskMetric_Timestamp = 1700000000000\<rparr>,
          DiskRow \<lparr>DiskMetric_AgentID = ''a1'', DiskMetric_MountPoint = ''/var'',
            DiskMetric_Total = 50, DiskMetric_Used = 25, DiskMetric_Free = 25,
            DiskMetric_UsagePercent = 50, DiskMetric_Timestamp = 1700000000000\<rparr>],
       metricLog = [''failed to save disk metric'']\<rparr>,
      Returned None)"
proof -
  let ?xs = "[\<lparr>DiskData_MountPoint = ''/'', DiskData_Total = 100, DiskData_Used = 40,
           DiskData_Free = 60, DiskData_UsagePercent = 40\<rparr>,
         \<lparr>DiskData_MountPoint = ''/home'', DiskData_Total = 200, DiskData_Used = 20,
           DiskData_Free = 180, DiskData_UsagePercent = 10\<rparr>,
         \<lparr>DiskData_MountPoint = ''/var'', DiskData_Total = 50, DiskData_Used = 25,
           DiskData_Free = 25, DiskData_UsagePercent = 50\<rparr>]"
  let ?json = "\<lparr>unmarshalCPU = (\<lambda>raw::string. Inl ErrJSON), unmarshalMemory = (\<lambda>raw. Inl ErrJSON),
      unmarshalDisk = (\<lambda>raw. Inr ?xs),
      unmarshalNetwork = (\<lambda>raw. Inl ErrJSON),
      unmarshalNetworkConnection = (\<lambda>raw. Inl ErrJSON),
      unmarshalDiskIO = (\<lambda>raw. Inl ErrJSON), unmarshalHost = (\<lambda>raw. Inl ErrJSON),
      unmarshalGPU = (\<lambda>raw. Inl ErrJSON), unmarshalTemperature = (\<lambda>raw. Inl ErrJSON),
      unmarshalMonitor = (\<lambda>raw. Inl ErrJSON)\<rparr>"
  let ?st = "\<lparr>metricRows = [], metricLog = []\<rparr>"
  have u: "unmarshalDisk ?json ''frame'' = Inr ?xs" by simp
  note T = HandleMetricData_array_frames
    [of ?json "''frame''" 1700000000000 "\<lambda>n. n = 1" ?st "''a1''"]
  have h: "HandleMetricData 1700000000000 ?json (\<lambda>n. n = 1) ?st ''a1'' MetricTypeDisk ''frame''
        = (?st\<lparr>metricRows := metricRows ?st
                 @ savedRows (\<lambda>n. n = 1) (\<lambda>x. DiskRow (mkDiskMetric ''a1'' 1700000000000 x)) ?xs,
              metricLog := metricLog ?st
                 @ replicate (failedSaves (\<lambda>n. n = 1) ?xs) ''failed to save disk metric''\<rparr>,
           Returned None)"
    by (rule T [THEN conjunct1, THEN spec, THEN mp, OF u])
  have s: "savedRows (\<lambda>n. n = 1) (\<lambda>x. DiskRow (mkDiskMetric ''a1'' 1700000000000 x)) ?xs
        = [DiskRow \<lparr>DiskMetric_AgentID = ''a1'', DiskMetric_MountPoint = ''/'',
            DiskMetric_Total = 100, DiskMetric_Used = 40, DiskMetric_Free = 60,
            DiskMetric_UsagePercent = 40, DiskMetric_Timestamp = 1700000000000\<rparr>,
          DiskRow \<lparr>DiskMetric_AgentID = ''a1'', DiskMetric_MountPoint = ''/var'',
            DiskMetric_Total = 50, DiskMetric_Used = 25, DiskMetric_Free = 25,
            DiskMetric_UsagePercent = 50, DiskMetric_Timestamp = 1700000000000\<rparr>]"
    by (simp add: savedRows_def mkDiskMetric_def)
  have f: "failedSaves (\<lambda>n. n = 1) ?xs = 1"
    by (simp add: failedSaves_def)
  show ?thesis unfolding h s f by simp
qed

text \<open>
  Claim C8 at a concrete disk I/O frame. The frame decodes to three elements, the sample
  of \<open>sda\<close>, a \<^verbatim>\<open>null\<close> and the sample of \<open>sdb\<close>, and no save call fails. The
  row of \<open>sda\<close> is written; at the second element the handler panics: it returns
  nothing, logs nothing, and the row of \<open>sdb\<close> is not written.
\<close>

theorem HandleMetricData_diskio_null_element:
  "HandleMetricData 1700000000000
     \<lparr>unmarshalCPU = (\<lambda>raw. Inl ErrJSON), unmarshalMemory = (\<lambda>raw. Inl ErrJSON),
      unmarshalDisk = (\<lambda>raw. Inl ErrJSON), unmarshalNetwork = (\<lambda>raw. Inl ErrJSON),
      unmarshalNetworkConnection = (\<lambda>raw. Inl ErrJSON),
      unmarshalDiskIO = (\<lambda>raw. if raw = ''[{device: sda}, null, {device: sdb}]''
         then Inr [Some \<lparr>DiskIOData_Device = ''sda'', DiskIOData_ReadCount = 10,
                     DiskIOData_WriteCount = 20, DiskIOData_ReadBytes = 4096,
                     DiskIOData_WriteBytes = 8192, DiskIOData_ReadBytesRate = 1,
                     DiskIOData_WriteBytesRate = 2, DiskIOData_ReadTime = 3,
                     DiskIOData_WriteTime = 4, DiskIOData_IoTime = 5,
                     DiskIOData_IopsInProgress = 0\<rparr>,
                   None,
                   Some \<lparr>DiskIOData_Device = ''sdb'', DiskIOData_ReadCount = 11,
                     DiskIOData_WriteCount = 21, DiskIOData_ReadBytes = 512,
                     DiskIOData_WriteBytes = 1024, DiskIOData_ReadBytesRate = 3,
                     DiskIOData_WriteBytesRate = 4, DiskIOData_ReadTime = 5,
                     DiskIOData_WriteTime = 6, DiskIOData_IoTime = 7,
                     DiskIOData_IopsInProgress = 1\<rparr>]
         else Inl ErrJSON),
      unmarshalHost = (\<lambda>raw. Inl ErrJSON), unmarshalGPU = (\<lambda>raw. Inl ErrJSON),
      unmarshalTemperature = (\<lambda>raw. Inl ErrJSON), unmarshalMonitor = (\<lambda>raw. Inl ErrJSON)\<rparr>
     (\<lambda>n. False) \<lparr>metricRows = [], metricLog = []\<rparr> ''a1'' ''disk_io''
     ''[{device: sda}, null, {device: sdb}]''
   = (\<lparr>metricRows =
         [DiskIORow \<lparr>DiskIOMetric_AgentID = ''a1'', DiskIOMetric_Device = ''sda'',
            DiskIOMetric_ReadCount = 10, DiskIOMetric_WriteCount = 20,
            DiskIOMetric_ReadBytes = 4096, DiskIOMetric_WriteBytes = 8192,
            DiskIOMetric_ReadBytesRate = 1, DiskIOMetric_WriteBytesRate = 2,
            DiskIOMetric_ReadTime = 3, DiskIOMetric_WriteTime = 4, DiskIOMetric_IoTime = 5,
            DiskIOMetric_IopsInProgress = 0, DiskIOMetric_Timestamp = 1700000000000\<rparr>],
       metricLog = []\<rparr>,
      PanicNilPointer)"
  by (simp add: HandleMetricData_def MetricType_defs saveMetric_def mkDiskIOMetric_def)

section \<open>Properties of the property store\<close>

lemma cacheGet_cacheDelete: "cacheGet (cacheDelete c k) now k = None"
  by (simp add: cacheGet_def cacheDelete_def)

text \<open>A successful \<^verbatim>\<open>Set\<close> saves the row of the key and removes the key from the cache.\<close>

lemma Set_success:
  assumes "Set env marshal st k name v = (st1, None)"
  shows "\<exists>jsonValue. marshal v = Inr jsonValue
           \<and> propTable st1 k = Some \<lparr>Property_ID = k, Property_Name = name,
                 Property_Value = jsonValue,
                 Property_CreatedAt = UnixMilli (propNow env),
                 Property_UpdatedAt = UnixMilli (propNow env)\<rparr>
           \<and> propCache st1 = cacheDelete (propCache st) k"
  using assms
  by (auto simp: Set_def PropertyRepo_Save_def Let_def split: sum.splits if_splits)

text \<open>
  Claim C9. After a \<^verbatim>\<open>Set\<close> of a key that returns no error, a \<^verbatim>\<open>Get\<close> of that
  key, at any later time and whatever the cache held before the write, reads the table:
  if the read does not fail it returns the property just written, whose value is the
  JSON encoding of the value written; if the read fails it returns the error. It never
  returns a property with another value.
\<close>

theorem Set_then_Get:
  assumes "Set env1 marshal st k name v = (st1, None)"
    and "Get env2 st1 k = (st2, result)"
  shows "\<exists>jsonValue. marshal v = Inr jsonValue
           \<and> (\<not> propFindFails env2 \<longrightarrow>
                result = Inr \<lparr>Property_ID = k, Property_Name = name,
                  Property_Value = jsonValue,
                  Property_CreatedAt = UnixMilli (propNow env1),
                  Property_UpdatedAt = UnixMilli (propNow env1)\<rparr>)
           \<and> (propFindFails env2 \<longrightarrow> (\<exists>err. result = Inl err))
           \<and> (\<forall>property. result = Inr property \<longrightarrow> Property_Value property = jsonValue)"
proof -
  from Set_success [OF assms(1)] obtain jsonValue where
    m: "marshal v = Inr jsonValue"
    and t: "propTable st1 k = Some \<lparr>Property_ID = k, Property_Name = name,
                 Property_Value = jsonValue,
                 Property_CreatedAt = UnixMilli (propNow env1),
                 Property_UpdatedAt = UnixMilli (propNow env1)\<rparr>"
    and c: "propCache st1 = cacheDelete (propCache st) k"
    by blast
  have miss: "cacheGet (propCache st1) (propNow env2) k = None"
    unfolding c by (rule cacheGet_cacheDelete)
  have "(\<not> propFindFails env2 \<longrightarrow>
                result = Inr \<lparr>Property_ID = k, Property_Name = name,
                  Property_Value = jsonValue,
                  Property_CreatedAt = UnixMilli (propNow env1),
                  Property_UpdatedAt = UnixMilli (propNow env1)\<rparr>)
           \<and> (propFindFails env2 \<longrightarrow> (\<exists>err. result = Inl err))
           \<and> (\<forall>property. result = Inr property \<longrightarrow> Property_Value property = jsonValue)"
    using assms(2) miss t
    by (cases "propFindFails env2") (auto simp: Get_def PropertyRepo_FindById_def)
  then show ?thesis using m by blast
qed

text \<open>
  The theorem at a store whose cache holds an unexpired entry for \<open>system_config\<close> with
  the value \<open>old\<close>: after \<^verbatim>\<open>Set\<close> with the value \<open>new\<close> (encoded as it is), \<^verbatim>\<open>Get\<close>
  returns the property with the value \<open>new\<close>.
\<close>

theorem Set_then_Get_witness:
  "(case Set \<lparr>propNow = 1700000000000000000, propFindFails = False, propSaveFails = False\<rparr>
          (\<lambda>v. Inr v)
          \<lparr>propTable = [''system_config'' \<mapsto>
              \<lparr>Property_ID = ''system_config'', Property_Name = ''config'',
               Property_Value = ''old'', Property_CreatedAt = 1690000000000,
               Property_UpdatedAt = 1690000000000\<rparr>],
           propCache = [''system_config'' \<mapsto>
              (\<lparr>Property_ID = ''system_config'', Property_Name = ''config'',
                Property_Value = ''old'', Property_CreatedAt = 1690000000000,
                Property_UpdatedAt = 1690000000000\<rparr>, 1700003000000000000)]\<rparr>
          ''system_config'' ''config'' ''new''
    of (st1, err) \<Rightarrow>
      err = None
      \<and> snd (Get \<lparr>propNow = 1700000001000000000, propFindFails = False, propSaveFails = False\<rparr>
               st1 ''system_config'')
          = Inr \<lparr>Property_ID = ''system_config'', Property_Name = ''config'',
                 Property_Value = ''new'', Property_CreatedAt = 1700000000000,
                 Property_UpdatedAt = 1700000000000\<rparr>)"
proof -
  let ?env1 = "\<lparr>propNow = 1700000000000000000, propFindFails = False, propSaveFails = False\<rparr>"
  let ?env2 = "\<lparr>propNow = 1700000001000000000, propFindFails = False, propSaveFails = False\<rparr>"
  let ?old = "\<lparr>Property_ID = ''system_config'', Property_Name = ''config'',
               Property_Value = ''old'', Property_CreatedAt = 1690000000000,
               Property_UpdatedAt = 1690000000000\<rparr>"
  let ?st = "\<lparr>propTable = [''system_config'' \<mapsto> ?old],
              propCache = [''system_config'' \<mapsto> (?old, 1700003000000000000)]\<rparr>"
  let ?marshal = "\<lambda>v::string. (Inr v :: error + string)"
  obtain st1 err where s: "Set ?env1 ?marshal ?st ''system_config'' ''config'' ''new'' = (st1, err)"
    by (cases "Set ?env1 ?marshal ?st ''system_config'' ''config'' ''new''") blast
  have e: "err = None"
    using s by (simp add: Set_def PropertyRepo_Save_def Let_def)
  obtain st2 result where g: "Get ?env2 st1 ''system_config'' = (st2, result)"
    by (cases "Get ?env2 st1 ''system_config''") blast
  from Set_then_Get [OF s [unfolded e] g] obtain jsonValue where
    m: "?marshal ''new'' = Inr jsonValue"
    and r: "\<not> propFindFails ?env2 \<longrightarrow>
                result = Inr \<lparr>Property_ID = ''system_config'', Property_Name = ''config'',
                  Property_Value = jsonValue,
                  Property_CreatedAt = UnixMilli (propNow ?env1),
                  Property_UpdatedAt = UnixMilli (propNow ?env1)\<rparr>"
    by blast
  have j: "jsonValue = ''new''" using m by simp
  have "result = Inr \<lparr>Property_ID = ''system_config'', Property_Name = ''config'',
                 Property_Value = ''new'', Property_CreatedAt = 1700000000000,
                 Property_UpdatedAt = 1700000000000\<rparr>"
    using r j by (simp add: UnixMilli_def)
  then show ?thesis using s e g by simp
qed

lemma applyPublicIPConfigDefaults_fields:
  "applyPublicIPConfigDefaults stored =
     stored\<lparr>IntervalSeconds := (if IntervalSeconds stored \<le> 0 then 300 else IntervalSeconds stored),
            IPv4Scope := (if IPv4Scope stored = ''custom'' then ''custom'' else ''all''),
            IPv6Scope := (if IPv6Scope stored = ''custom'' then ''custom'' else ''all''),
            IPv4APIs := (if IPv4APIs stored = [] then defaultPublicIPv4APIs else IPv4APIs stored),
            IPv6APIs := (if IPv6APIs stored = [] then defaultPublicIPv6APIs else IPv6APIs stored)\<rparr>"
  by (cases stored) (simp add: applyPublicIPConfigDefaults_def Let_def)

text \<open>
  Claim C10. Whenever \<^verbatim>\<open>GetPublicIPConfig\<close> returns a configuration, it is the stored
  one (what \<^verbatim>\<open>GetValue\<close> decodes, the zero configuration for an empty value) with its
  defaults applied: the interval is positive, 300 where the stored one is not positive;
  each scope is \<open>all\<close> or \<open>custom\<close>, \<open>all\<close> where the stored one is anything but
  \<open>custom\<close>; each API list is non-empty, the built-in list where the stored one is empty.
\<close>

theorem GetPublicIPConfig_normalized:
  assumes "GetPublicIPConfig env unmarshal st = (st1, Inr config)"
  shows "\<exists>stored.
           GetValue env unmarshal st PropertyIDPublicIPConfig zeroPublicIPConfig = (st1, Inr stored)
         \<and> 0 < IntervalSeconds config
         \<and> IntervalSeconds config
             = (if IntervalSeconds stored \<le> 0 then 300 else IntervalSeconds stored)
         \<and> (IPv4Scope config = ''all'' \<or> IPv4Scope config = ''custom'')
         \<and> IPv4Scope config = (if IPv4Scope stored = ''custom'' then ''custom'' else ''all'')
         \<and> (IPv6Scope config = ''all'' \<or> IPv6Scope config = ''custom'')
         \<and> IPv6Scope config = (if IPv6Scope stored = ''custom'' then ''custom'' else ''all'')
         \<and> IPv4APIs config \<noteq> []
         \<and> IPv4APIs config
             = (if IPv4APIs stored = [] then defaultPublicIPv4APIs else IPv4APIs stored)
         \<and> IPv6APIs config \<noteq> []
         \<and> IPv6APIs config
             = (if IPv6APIs stored = [] then defaultPublicIPv6APIs else IPv6APIs stored)"
proof -
  from assms obtain stored where
    g: "GetValue env unmarshal st PropertyIDPublicIPConfig zeroPublicIPConfig = (st1, Inr stored)"
    and c: "config = applyPublicIPConfigDefaults stored"
    by (auto simp: GetPublicIPConfig_def Let_def split: prod.splits sum.splits)
  have d4: "defaultPublicIPv4APIs \<noteq> []" by (simp add: defaultPublicIPv4APIs_def)
  have d6: "defaultPublicIPv6APIs \<noteq> []" by (simp add: defaultPublicIPv6APIs_def)
  show ?thesis
    using g d4 d6 unfolding c applyPublicIPConfigDefaults_fields
    by (intro exI [of _ stored]) simp
qed

text \<open>
  The theorem at a stored configuration with interval 0, IPv4 scope \<open>agents\<close>, IPv6
  scope \<open>custom\<close>, no IPv4 API and one IPv6 API: the returned configuration has interval
  300, IPv4 scope \<open>all\<close>, IPv6 scope \<open>custom\<close>, the built-in IPv4 list and the stored
  IPv6 list.
\<close>

theorem GetPublicIPConfig_normalized_witness:
  "(case snd (GetPublicIPConfig
        \<lparr>propNow = 1700000000000000000, propFindFails = False, propSaveFails = False\<rparr>
        (\<lambda>raw target. Inr (target\<lparr>IntervalSeconds := 0, IPv4Scope := ''agents'',
            IPv6Scope := ''custom'', IPv6APIs := [''https://v6.example.org'']\<rparr>))
        \<lparr>propTable = [''public_ip_config'' \<mapsto>
            \<lparr>Property_ID = ''public_ip_config'', Property_Name = ''public ip'',
             Property_Value = ''{stored}'', Property_CreatedAt = 1690000000000,
             Property_UpdatedAt = 1690000000000\<rparr>],
         propCache = Map.empty\<rparr>)
    of Inl err \<Rightarrow> False
     | Inr config \<Rightarrow>
         IntervalSeconds config = 300 \<and> IPv4Scope config = ''all''
       \<and> IPv6Scope config = ''custom'' \<and> IPv4APIs config = defaultPublicIPv4APIs
       \<and> IPv6APIs config = [''https://v6.example.org''])"
proof -
  let ?env = "\<lparr>propNow = 1700000000000000000, propFindFails = False, propSaveFails = False\<rparr>"
  let ?unmarshal = "\<lambda>(raw::string) target. (Inr (target\<lparr>IntervalSeconds := 0,
      IPv4Scope := ''agents'', IPv6Scope := ''custom'',
      IPv6APIs := [''https://v6.example.org'']\<rparr>) :: error + PublicIPConfig)"
  let ?st = "\<lparr>propTable = [''public_ip_config'' \<mapsto>
            \<lparr>Property_ID = ''public_ip_config'', Property_Name = ''public ip'',
             Property_Value = ''{stored}'', Property_CreatedAt = 1690000000000,
             Property_UpdatedAt = 1690000000000\<rparr>],
         propCache = Map.empty\<rparr>"
  let ?stored = "zeroPublicIPConfig\<lparr>IntervalSeconds := 0, IPv4Scope := ''agents'',
      IPv6Scope := ''custom'', IPv6APIs := [''https://v6.example.org'']\<rparr>"
  have v: "snd (GetValue ?env ?unmarshal ?st PropertyIDPublicIPConfig zeroPublicIPConfig)
             = Inr ?stored"
    by (simp add: GetValue_def Get_def cacheGet_def PropertyRepo_FindById_def
        PropertyIDPublicIPConfig_def)
  obtain st1 result where g: "GetPublicIPConfig ?env ?unmarshal ?st = (st1, result)"
    by (cases "GetPublicIPConfig ?env ?unmarshal ?st") blast
  have "\<exists>config. result = Inr config"
    using g v by (auto simp: GetPublicIPConfig_def Let_def split: prod.splits sum.splits)
  then obtain config where r: "result = Inr config" by blast
  from GetPublicIPConfig_normalized [OF g [unfolded r]] obtain stored where
    s: "GetValue ?env ?unmarshal ?st PropertyIDPublicIPConfig zeroPublicIPConfig = (st1, Inr stored)"
    and p: "IntervalSeconds config
             = (if IntervalSeconds stored \<le> 0 then 300 else IntervalSeconds stored)"
      "IPv4Scope config = (if IPv4Scope stored = ''custom'' then ''custom'' else ''all'')"
      "IPv6Scope config = (if IPv6Scope stored = ''custom'' then ''custom'' else ''all'')"
      "IPv4APIs config
             = (if IPv4APIs stored = [] then defaultPublicIPv4APIs else IPv4APIs stored)"
      "IPv6APIs config
             = (if IPv6APIs stored = [] then defaultPublicIPv6APIs else IPv6APIs stored)"
    by blast
  have "stored = ?stored" using s v by simp
  then have "IntervalSeconds config = 300 \<and> IPv4Scope config = ''all''
       \<and> IPv6Scope config = ''custom'' \<and> IPv4APIs config = defaultPublicIPv4APIs
       \<and> IPv6APIs config = [''https://v6.example.org'']"
    using p by (simp add: zeroPublicIPConfig_def)
  then show ?thesis using g r by simp
qed

end
